theory Spec2Isabelle
  imports Main "HOL-Library.Word"
begin

unbundle bit_operations_syntax

section \<open>Data model of the ICE agent (src/ice.c)\<close>

text \<open>
  The C code links candidates, pairs and valid pairs by pointers and mutates them in place
  through several lists at once. Objects therefore live in a store indexed by address
  (a natural number); \<open>ms_new\<close> hands out the next unused address and addresses are
  never reused (\<open>ms_free\<close> is not modelled). Strings are the contents of C strings.
  Field names follow the C structs; where two structs share a field name the pair's,
  session's or check list's field carries a prefix.
\<close>

type_synonym cand_ptr = nat
type_synonym pair_ptr = nat

datatype IceRole = IR_Controlling | IR_Controlled

datatype IceCandidateType =
  ICT_HostCandidate | ICT_ServerReflexiveCandidate | ICT_PeerReflexiveCandidate | ICT_RelayedCandidate

datatype IceCandidatePairState =
  ICP_Waiting | ICP_InProgress | ICP_Succeeded | ICP_Failed | ICP_Frozen

datatype IceCheckListState = ICL_Running | ICL_Completed | ICL_Failed

datatype IceSessionState = IS_Stopped | IS_Running | IS_Completed | IS_Failed

record IceTransportAddress =
  ip :: string
  port :: int

record IceCandidate =
  foundation :: string
  taddr :: IceTransportAddress
  ctype :: IceCandidateType
  priority :: "32 word"
  componentID :: "16 word"
  base :: "cand_ptr option"
  is_default :: bool

record IceCandidatePair =
  local :: cand_ptr
  remote :: cand_ptr
  state :: IceCandidatePairState
  pair_priority :: "64 word"
  transactionID :: "96 word"
  transmission_time :: "64 word"
  rto :: "32 word"
  retransmissions :: "8 word"
  pair_role :: IceRole
  pair_is_default :: bool
  is_nominated :: bool
  wait_transaction_timeout :: bool

record IceValidCandidatePair =
  valid :: pair_ptr
  generated_from :: pair_ptr

record IcePairFoundation =
  pf_local :: string
  pf_remote :: string

record IceCheckList =
  cand_mem :: "cand_ptr \<Rightarrow> IceCandidate"
  cand_next :: nat
  pair_mem :: "pair_ptr \<Rightarrow> IceCandidatePair"
  pair_next :: nat
  cl_remote_ufrag :: "string option"
  cl_remote_pwd :: "string option"
  local_candidates :: "cand_ptr list"
  remote_candidates :: "cand_ptr list"
  pairs :: "pair_ptr list"
  triggered_checks_queue :: "pair_ptr list"
  check_list :: "pair_ptr list"
  valid_list :: "IceValidCandidatePair list"
  componentIDs :: "cand_ptr list"
  foundations :: "IcePairFoundation list"
  cl_state :: IceCheckListState
  ta_time :: "64 word"
  keepalive_time :: "64 word"
  foundation_generator :: "32 word"
  success_cb_registered :: bool
  success_cb_calls :: nat

record IceSession =
  streams :: "IceCheckList list"
  session_state :: IceSessionState
  role :: IceRole
  tie_breaker :: "64 word"
  ta :: "32 word"
  keepalive_timeout :: "8 word"
  max_connectivity_checks :: "8 word"
  local_ufrag :: string
  local_pwd :: string
  remote_ufrag :: "string option"
  remote_pwd :: "string option"
  ticker_time :: "64 word"

subsection \<open>STUN messages, packets and the RTP session (external collaborators)\<close>

datatype StunMsgClass = STUN_REQUEST | STUN_INDICATION | STUN_SUCCESS_RESP | STUN_ERR_RESP

record StunAddress4 =
  sa_addr :: "32 word"
  sa_port :: "16 word"

record StunMessage =
  msgType :: StunMsgClass
  msgLength :: "16 word"
  tr_id :: "96 word"
  hasMessageIntegrity :: bool
  hasUsername :: bool
  hasFingerprint :: bool
  hasPriority :: bool
  hasIceControlling :: bool
  hasIceControlled :: bool
  hasUseCandidate :: bool
  hasXorMappedAddress :: bool
  hasErrorCode :: bool
  username :: string
  messageIntegrity :: "8 word list"
  msg_priority :: "32 word"
  iceControlling :: "64 word"
  iceControlled :: "64 word"
  xorMappedAddress :: StunAddress4
  errorClass :: "8 word"
  errorNumber :: "8 word"
  errorReason :: string

datatype OrtpSocketType = OrtpRTPSocket | OrtpRTCPSocket

datatype SockFamily = AF_INET | AF_INET6 | AF_OTHER

text \<open>
  One received packet: the socket it came in on, its bytes, its destination address
  (\<open>ntohl(packet->ipi_addr.s_addr)\<close>), and the peer's socket address with the numeric host
  string \<open>getnameinfo\<close> yields for it (\<open>None\<close> when \<open>getnameinfo\<close> fails).
\<close>

record OrtpEventData =
  socket_type :: OrtpSocketType
  packet :: "8 word list"
  ipi_addr :: "32 word"
  ep_family :: SockFamily
  ep_addr :: "32 word"
  ep_port :: "16 word"
  ep_host :: "string option"

text \<open>
  The RTP session: its two sockets, its local RTP port, and the log of every
  \<open>sendMessage(socket, message, address, port)\<close> call, oldest first.
\<close>

record RtpSession =
  rtp_socket :: int
  rtcp_socket :: int
  loc_port :: int
  sent :: "(int \<times> StunMessage \<times> 32 word \<times> 16 word) list"

text \<open>
  What ice.c takes from its headers and from the STUN codec and libc, none of it in the
  source file: the sizes of the \<open>ip\<close> and \<open>foundation\<close> buffers of ice.h and of the STUN
  string attribute, the host-name resolver (the address and port it leaves in its output
  arguments, given the host string and the default port), \<open>inet_ntoa\<close>, the encoder (the
  length it returns for a message and a password, positive on success; the password is
  \<open>None\<close> where the caller passes an uninitialised or NULL one), the parser and the
  short-term HMAC.
\<close>

record IceExternals =
  ip_size :: nat
  foundation_size :: nat
  stun_string_size :: nat
  stunParseHostName :: "string \<Rightarrow> 16 word \<Rightarrow> 32 word \<times> 16 word"
  inet_ntoa :: "32 word \<Rightarrow> string"
  stunEncodeMessage :: "StunMessage \<Rightarrow> string option \<Rightarrow> int"
  stunParseMessage :: "8 word list \<Rightarrow> StunMessage option"
  stunCalculateIntegrity_shortterm :: "8 word list \<Rightarrow> string \<Rightarrow> 8 word list"

text \<open>How a call can end without returning: a NULL pointer is dereferenced, or the loop
  drawing random foundations uses up the random numbers it was given.\<close>

datatype fault = NullDereference | OutOfRandomness

subsection \<open>Constants of ice.c\<close>

definition ICE_MAX_NB_CANDIDATES :: nat where
  "ICE_MAX_NB_CANDIDATES = 10"

definition ICE_MAX_NB_CANDIDATE_PAIRS :: nat where
  "ICE_MAX_NB_CANDIDATE_PAIRS = ICE_MAX_NB_CANDIDATES * ICE_MAX_NB_CANDIDATES"

definition ICE_INVALID_COMPONENTID :: "16 word" where
  "ICE_INVALID_COMPONENTID = 0"

definition ICE_DEFAULT_TA_DURATION :: "32 word" where
  "ICE_DEFAULT_TA_DURATION = 20"

definition ICE_DEFAULT_RTO_DURATION :: "32 word" where
  "ICE_DEFAULT_RTO_DURATION = 100"

definition ICE_DEFAULT_KEEPALIVE_TIMEOUT :: "8 word" where
  "ICE_DEFAULT_KEEPALIVE_TIMEOUT = 15"

definition ICE_MAX_RETRANSMISSIONS :: "8 word" where
  "ICE_MAX_RETRANSMISSIONS = 7"

fun type_preference_values :: "IceCandidateType \<Rightarrow> 8 word" where
  "type_preference_values ICT_HostCandidate = 126"
| "type_preference_values ICT_ServerReflexiveCandidate = 100"
| "type_preference_values ICT_PeerReflexiveCandidate = 110"
| "type_preference_values ICT_RelayedCandidate = 0"

subsection \<open>The list primitive\<close>

text \<open>
  \<open>MSList\<close> is mediastreamer2's doubly linked list; its functions are not in ice.c. A list
  of pointers is a HOL list of addresses. \<open>ms_list_find_custom\<close> returns the first element
  on which the comparison function returns 0, so the model takes the predicate "returns 0".
\<close>

definition ms_list_size :: "'a list \<Rightarrow> nat" where
  "ms_list_size xs = length xs"

definition ms_list_append :: "'a list \<Rightarrow> 'a \<Rightarrow> 'a list" where
  "ms_list_append xs x = xs @ [x]"

definition ms_list_find_custom :: "'a list \<Rightarrow> ('a \<Rightarrow> bool) \<Rightarrow> 'a option" where
  "ms_list_find_custom xs is0 = List.find is0 xs"

definition ms_list_find :: "'a list \<Rightarrow> 'a \<Rightarrow> 'a option" where
  "ms_list_find xs x = List.find (\<lambda>y. y = x) xs"

definition ms_list_nth_data :: "'a list \<Rightarrow> nat \<Rightarrow> 'a option" where
  "ms_list_nth_data xs n = (if n < length xs then Some (xs ! n) else None)"

definition ms_list_remove :: "'a list \<Rightarrow> 'a \<Rightarrow> 'a list" where
  "ms_list_remove xs x = remove1 x xs"

section \<open>Pair priority and pair creation\<close>

text \<open>\<open>ice_compute_pair_priority\<close> (ice.c 227-244); \<open>cm\<close> is the candidate store the pair's
  two pointers are read from.\<close>

definition ice_compute_pair_priority ::
  "(cand_ptr \<Rightarrow> IceCandidate) \<Rightarrow> IceRole \<Rightarrow> IceCandidatePair \<Rightarrow> IceCandidatePair" where
  "ice_compute_pair_priority cm r pair =
     (let G = (case r of
                 IR_Controlling \<Rightarrow> (ucast (priority (cm (local pair))) :: 64 word)
               | IR_Controlled \<Rightarrow> ucast (priority (cm (remote pair))));
          D = (case r of
                 IR_Controlling \<Rightarrow> (ucast (priority (cm (remote pair))) :: 64 word)
               | IR_Controlled \<Rightarrow> ucast (priority (cm (local pair))))
      in pair\<lparr>pair_priority :=
            push_bit 32 (if G > D then D else G) OR push_bit 1 (if G > D then G else D)
              OR (if G > D then 1 else 0)\<rparr>)"

text \<open>\<open>ice_pair_set_state\<close> (ice.c 319-334).\<close>

definition ice_pair_set_state :: "IceCandidatePairState \<Rightarrow> IceCandidatePair \<Rightarrow> IceCandidatePair" where
  "ice_pair_set_state st pair =
     (if state pair \<noteq> st then
        (case st of
           ICP_Failed \<Rightarrow> pair\<lparr>state := st, transactionID := 0\<rparr>
         | ICP_Waiting \<Rightarrow> pair\<lparr>state := st, transactionID := 0\<rparr>
         | ICP_InProgress \<Rightarrow> pair\<lparr>state := st\<rparr>
         | ICP_Succeeded \<Rightarrow> pair\<lparr>state := st\<rparr>
         | ICP_Frozen \<Rightarrow> pair\<lparr>state := st\<rparr>)
      else pair)"

section \<open>Adding candidates\<close>

fun candidate_type_of_name :: "string \<Rightarrow> IceCandidateType option" where
  "candidate_type_of_name s =
     (if s = ''host'' then Some ICT_HostCandidate
      else if s = ''srflx'' then Some ICT_ServerReflexiveCandidate
      else if s = ''prflx'' then Some ICT_PeerReflexiveCandidate
      else if s = ''relay'' then Some ICT_RelayedCandidate
      else None)"

text \<open>
  \<open>ice_add_candidate\<close> (ice.c 1270-1318). \<open>lst\<close> is the list \<open>*list\<close> points to
  (\<open>cl->local_candidates\<close> or \<open>cl->remote_candidates\<close>); the result is the returned pointer
  (\<open>None\<close> for NULL), the new \<open>*list\<close> and the check list whose store holds the new candidate.
\<close>

definition ice_add_candidate ::
  "IceExternals \<Rightarrow> cand_ptr list \<Rightarrow> string \<Rightarrow> string \<Rightarrow> int \<Rightarrow> 16 word \<Rightarrow> IceCheckList
     \<Rightarrow> cand_ptr option \<times> cand_ptr list \<times> IceCheckList" where
  "ice_add_candidate ext lst tp ipstr prt cid cl =
     (if ms_list_size lst \<ge> ICE_MAX_NB_CANDIDATES then (None, lst, cl)
      else
        (case candidate_type_of_name tp of
           None \<Rightarrow> (None, lst, cl)
         | Some candidate_type \<Rightarrow>
            (let c = cand_next cl;
                 iplen = min (length ipstr) (ip_size ext);
                 candidate = \<lparr>foundation = [],
                              taddr = \<lparr>ip = take iplen ipstr, port = prt\<rparr>,
                              ctype = candidate_type,
                              priority = 0,
                              componentID = cid,
                              base = (case candidate_type of
                                        ICT_HostCandidate \<Rightarrow> Some c
                                      | ICT_RelayedCandidate \<Rightarrow> Some c
                                      | _ \<Rightarrow> None),
                              is_default = False\<rparr>
             in (Some c, ms_list_append lst c,
                 cl\<lparr>cand_mem := (cand_mem cl)(c := candidate), cand_next := Suc c\<rparr>))))"

text \<open>\<open>ice_compute_candidate_priority\<close> (ice.c 1320-1326): the operands are promoted to
  \<open>int\<close> and the result is stored in a \<open>uint32_t\<close>.\<close>

definition ice_compute_candidate_priority :: "IceCandidate \<Rightarrow> IceCandidate" where
  "ice_compute_candidate_priority candidate =
     (let type_preference = uint (type_preference_values (ctype candidate));
          local_preference = (65535 :: int)
      in candidate\<lparr>priority :=
           word_of_int (push_bit 24 type_preference OR push_bit 8 local_preference
                          OR (256 - uint (componentID candidate)))\<rparr>)"

text \<open>\<open>ice_find_componentID\<close> and \<open>ice_add_componentID\<close> (ice.c 1328-1339): the list holds
  pointers to the \<open>componentID\<close> field of candidates, here the candidates' addresses.\<close>

definition ice_add_componentID :: "cand_ptr \<Rightarrow> IceCheckList \<Rightarrow> IceCheckList" where
  "ice_add_componentID c cl =
     (case ms_list_find_custom (componentIDs cl)
             (\<lambda>c1. componentID (cand_mem cl c1) = componentID (cand_mem cl c)) of
        None \<Rightarrow> cl\<lparr>componentIDs := ms_list_append (componentIDs cl) c\<rparr>
      | Some _ \<Rightarrow> cl)"

text \<open>\<open>ice_add_local_candidate\<close> (ice.c 1341-1350).\<close>

definition ice_add_local_candidate ::
  "IceExternals \<Rightarrow> string \<Rightarrow> string \<Rightarrow> int \<Rightarrow> 16 word \<Rightarrow> cand_ptr option \<Rightarrow> IceCheckList
     \<Rightarrow> cand_ptr option \<times> IceCheckList" where
  "ice_add_local_candidate ext tp ipstr prt cid bs cl =
     (case ice_add_candidate ext (local_candidates cl) tp ipstr prt cid cl of
        (None, _, _) \<Rightarrow> (None, cl)
      | (Some c, lst, cl1) \<Rightarrow>
          (let cl2 = cl1\<lparr>local_candidates := lst\<rparr>;
               cand0 = cand_mem cl2 c;
               cand1 = (if base cand0 = None then cand0\<lparr>base := bs\<rparr> else cand0);
               cl3 = cl2\<lparr>cand_mem := (cand_mem cl2)(c := ice_compute_candidate_priority cand1)\<rparr>
           in (Some c, ice_add_componentID c cl3)))"

text \<open>\<open>ice_add_remote_candidate\<close> (ice.c 1352-1362).\<close>

definition ice_add_remote_candidate ::
  "IceExternals \<Rightarrow> string \<Rightarrow> string \<Rightarrow> int \<Rightarrow> 16 word \<Rightarrow> 32 word \<Rightarrow> string \<Rightarrow> IceCheckList
     \<Rightarrow> cand_ptr option \<times> IceCheckList" where
  "ice_add_remote_candidate ext tp ipstr prt cid prio fnd cl =
     (case ice_add_candidate ext (remote_candidates cl) tp ipstr prt cid cl of
        (None, _, _) \<Rightarrow> (None, cl)
      | (Some c, lst, cl1) \<Rightarrow>
          (let cl2 = cl1\<lparr>remote_candidates := lst\<rparr>;
               cand0 = cand_mem cl2 c;
               cand1 = (if prio = 0 then ice_compute_candidate_priority cand0
                        else cand0\<lparr>priority := prio\<rparr>);
               cand2 = cand1\<lparr>foundation := take (foundation_size ext - 1) fnd\<rparr>
           in (Some c, cl2\<lparr>cand_mem := (cand_mem cl2)(c := cand2)\<rparr>)))"

section \<open>Sending STUN messages\<close>

text \<open>Updating the object a pair pointer points to.\<close>

definition pair_update :: "pair_ptr \<Rightarrow> (IceCandidatePair \<Rightarrow> IceCandidatePair) \<Rightarrow> IceCheckList \<Rightarrow> IceCheckList" where
  "pair_update p f cl = cl\<lparr>pair_mem := (pair_mem cl)(p := f (pair_mem cl p))\<rparr>"

text \<open>A \<open>StunMessage\<close> after \<open>memset(&msg, 0, sizeof(msg))\<close>.\<close>

definition stun_zero_message :: StunMessage where
  "stun_zero_message =
     \<lparr>msgType = STUN_REQUEST, msgLength = 0, tr_id = 0,
      hasMessageIntegrity = False, hasUsername = False, hasFingerprint = False,
      hasPriority = False, hasIceControlling = False, hasIceControlled = False,
      hasUseCandidate = False, hasXorMappedAddress = False, hasErrorCode = False,
      username = [], messageIntegrity = replicate 20 0, msg_priority = 0,
      iceControlling = 0, iceControlled = 0,
      xorMappedAddress = \<lparr>sa_addr = 0, sa_port = 0\<rparr>,
      errorClass = 0, errorNumber = 0, errorReason = []\<rparr>"

definition stun_magic_cookie :: "32 word" where
  "stun_magic_cookie = 0x2112A442"

definition sendMessage :: "int \<Rightarrow> StunMessage \<Rightarrow> 32 word \<Rightarrow> 16 word \<Rightarrow> RtpSession \<Rightarrow> RtpSession" where
  "sendMessage socket m a prt rtp = rtp\<lparr>sent := sent rtp @ [(socket, m, a, prt)]\<rparr>"

text \<open>Check list accessors (ice.c 346-368). Printing a NULL remote credential with
  \<open>%s\<close> is shown as glibc prints it.\<close>

definition ice_check_list_local_ufrag :: "IceSession \<Rightarrow> IceCheckList \<Rightarrow> string" where
  "ice_check_list_local_ufrag sess cl = local_ufrag sess"

definition ice_check_list_local_pwd :: "IceSession \<Rightarrow> IceCheckList \<Rightarrow> string" where
  "ice_check_list_local_pwd sess cl = local_pwd sess"

definition ice_check_list_remote_ufrag :: "IceSession \<Rightarrow> IceCheckList \<Rightarrow> string option" where
  "ice_check_list_remote_ufrag sess cl =
     (case cl_remote_ufrag cl of Some u \<Rightarrow> Some u | None \<Rightarrow> remote_ufrag sess)"

definition ice_check_list_remote_pwd :: "IceSession \<Rightarrow> IceCheckList \<Rightarrow> string option" where
  "ice_check_list_remote_pwd sess cl =
     (case cl_remote_pwd cl of Some u \<Rightarrow> Some u | None \<Rightarrow> remote_pwd sess)"

definition printf_s :: "string option \<Rightarrow> string" where
  "printf_s s = (case s of Some t \<Rightarrow> t | None \<Rightarrow> ''(null)'')"

text \<open>The triggered checks queue (ice.c 390-411).\<close>

definition ice_check_list_queue_triggered_check :: "pair_ptr \<Rightarrow> IceCheckList \<Rightarrow> IceCheckList" where
  "ice_check_list_queue_triggered_check p cl =
     (case ms_list_find (triggered_checks_queue cl) p of
        Some _ \<Rightarrow> cl
      | None \<Rightarrow> cl\<lparr>triggered_checks_queue := ms_list_append (triggered_checks_queue cl) p\<rparr>)"

definition ice_check_list_pop_triggered_check :: "IceCheckList \<Rightarrow> pair_ptr option \<times> IceCheckList" where
  "ice_check_list_pop_triggered_check cl =
     (if ms_list_size (triggered_checks_queue cl) = 0 then (None, cl)
      else (case ms_list_nth_data (triggered_checks_queue cl) 0 of
              None \<Rightarrow> (None, cl)
            | Some p \<Rightarrow> (Some p, cl\<lparr>triggered_checks_queue := tl (triggered_checks_queue cl)\<rparr>)))"

text \<open>
  The request \<open>ice_send_binding_request\<close> builds for the pair at \<open>p\<close> (ice.c 531-567):
  \<open>stunBuildReqSimple\<close> sets the type, the user name when it is not empty, and a
  transaction ID it draws itself, here \<open>new_id\<close>; a retransmission keeps the pair's ID.
\<close>

definition ice_binding_request_message ::
  "IceExternals \<Rightarrow> IceSession \<Rightarrow> 96 word \<Rightarrow> IceCheckList \<Rightarrow> pair_ptr \<Rightarrow> StunMessage" where
  "ice_binding_request_message ext sess new_id cl p =
     (let pair = pair_mem cl p;
          uname = take (stun_string_size ext - 2)
                    (printf_s (ice_check_list_remote_ufrag sess cl) @ '':''
                       @ ice_check_list_local_ufrag sess cl);
          m0 = stun_zero_message\<lparr>msgType := STUN_REQUEST, tr_id := new_id,
                 hasUsername := (uname \<noteq> []), username := uname\<rparr>;
          m1 = m0\<lparr>hasMessageIntegrity := True, hasFingerprint := True, hasPriority := True,
                 msg_priority := (priority (cand_mem cl (local pair)) AND 0x00ffffff)
                    OR push_bit 24 (ucast (type_preference_values ICT_PeerReflexiveCandidate))\<rparr>;
          m2 = (if role sess = IR_Controlling \<and> is_nominated pair
                then m1\<lparr>hasUseCandidate := True\<rparr> else m1);
          m3 = (case role sess of
                  IR_Controlling \<Rightarrow> m2\<lparr>hasIceControlling := True, iceControlling := tie_breaker sess\<rparr>
                | IR_Controlled \<Rightarrow> m2\<lparr>hasIceControlled := True, iceControlled := tie_breaker sess\<rparr>)
      in if state pair = ICP_InProgress then m3\<lparr>tr_id := transactionID pair\<rparr> else m3)"

text \<open>
  \<open>ice_send_binding_request\<close> (ice.c 495-585); \<open>sess\<close> is \<open>cl->session\<close>, which is only read.
\<close>

definition ice_send_binding_request ::
  "IceExternals \<Rightarrow> IceSession \<Rightarrow> 96 word \<Rightarrow> pair_ptr \<Rightarrow> IceCheckList \<times> RtpSession
     \<Rightarrow> IceCheckList \<times> RtpSession" where
  "ice_send_binding_request ext sess new_id p clr =
     (let cl = fst clr; rtp = snd clr; pair = pair_mem cl p in
      if state pair = ICP_InProgress \<and> wait_transaction_timeout pair then
        (ice_check_list_queue_triggered_check p
           (pair_update p (\<lambda>pr. ice_pair_set_state ICP_Waiting (pr\<lparr>wait_transaction_timeout := False\<rparr>)) cl),
         rtp)
      else if state pair = ICP_InProgress \<and> retransmissions pair + 1 > ICE_MAX_RETRANSMISSIONS then
        (pair_update p (\<lambda>pr. ice_pair_set_state ICP_Failed (pr\<lparr>retransmissions := retransmissions pr + 1\<rparr>)) cl,
         rtp)
      else
        (let cl1 = (if state pair = ICP_InProgress
                    then pair_update p (\<lambda>pr. pr\<lparr>retransmissions := retransmissions pr + 1,
                                                  rto := push_bit 1 (rto pr),
                                                  transmission_time := ticker_time sess\<rparr>) cl
                    else cl);
             pair1 = pair_mem cl1 p;
             cid = componentID (cand_mem cl1 (local pair1))
         in if cid \<noteq> 1 \<and> cid \<noteq> 2 then (cl1, rtp)
            else
              (let socket = (if cid = 1 then rtp_socket rtp else rtcp_socket rtp);
                   rcand = cand_mem cl1 (remote pair1);
                   dest = stunParseHostName ext (ip (taddr rcand)) (word_of_int (port (taddr rcand)));
                   m = ice_binding_request_message ext sess new_id cl1 p;
                   len = stunEncodeMessage ext m (Some (take (stun_string_size ext - 2)
                                                     (printf_s (ice_check_list_remote_pwd sess cl1))))
               in if len > 0 then
                    (pair_update p
                       (\<lambda>pr. (let pr1 = pr\<lparr>transactionID := tr_id m\<rparr>
                               in if state pr1 \<noteq> ICP_InProgress
                                  then ice_pair_set_state ICP_InProgress
                                         (pr1\<lparr>rto := ICE_DEFAULT_RTO_DURATION, retransmissions := 0,
                                               pair_role := role sess\<rparr>)
                                  else pr1)) cl1,
                     sendMessage socket m (fst dest) (snd dest) rtp)
                  else (cl1, rtp))))"

text \<open>\<open>ice_handle_connectivity_check_retransmission\<close> (ice.c 1764-1772); \<open>time\<close> is
  \<open>params->time\<close>.\<close>

definition ice_handle_connectivity_check_retransmission ::
  "IceExternals \<Rightarrow> IceSession \<Rightarrow> 96 word \<Rightarrow> 64 word \<Rightarrow> pair_ptr \<Rightarrow> IceCheckList \<times> RtpSession
     \<Rightarrow> IceCheckList \<times> RtpSession" where
  "ice_handle_connectivity_check_retransmission ext sess new_id time p clr =
     (let pair = pair_mem (fst clr) p in
      if state pair = ICP_InProgress \<and> time - transmission_time pair \<ge> ucast (rto pair)
      then ice_send_binding_request ext sess new_id p clr
      else clr)"

text \<open>\<open>ice_get_socket_from_rtp_session\<close> and \<open>ice_get_recv_port_from_rtp_session\<close>
  (ice.c 587-604); the socket type has the two values the C code distinguishes.\<close>

definition ice_get_socket_from_rtp_session :: "RtpSession \<Rightarrow> OrtpEventData \<Rightarrow> int" where
  "ice_get_socket_from_rtp_session rtp evt =
     (case socket_type evt of OrtpRTPSocket \<Rightarrow> rtp_socket rtp | OrtpRTCPSocket \<Rightarrow> rtcp_socket rtp)"

definition ice_get_recv_port_from_rtp_session :: "RtpSession \<Rightarrow> OrtpEventData \<Rightarrow> int" where
  "ice_get_recv_port_from_rtp_session rtp evt =
     (case socket_type evt of OrtpRTPSocket \<Rightarrow> loc_port rtp | OrtpRTCPSocket \<Rightarrow> loc_port rtp + 1)"

text \<open>\<open>ice_send_binding_response\<close> (ice.c 606-638).\<close>

definition ice_send_binding_response ::
  "IceExternals \<Rightarrow> OrtpEventData \<Rightarrow> StunMessage \<Rightarrow> StunAddress4 \<Rightarrow> RtpSession \<Rightarrow> RtpSession" where
  "ice_send_binding_response ext evt m dest rtp =
     (let socket = ice_get_socket_from_rtp_session rtp evt in
      if socket < 0 then rtp
      else
        (let response = stun_zero_message\<lparr>tr_id := tr_id m, msgType := STUN_SUCCESS_RESP,
                          hasMessageIntegrity := True, hasFingerprint := True, hasUsername := True,
                          username := username m, hasXorMappedAddress := True,
                          xorMappedAddress :=
                            \<lparr>sa_addr = sa_addr dest XOR stun_magic_cookie,
                             sa_port = sa_port dest XOR ucast (drop_bit 16 stun_magic_cookie)\<rparr>\<rparr>;
             len = stunEncodeMessage ext response None
         in if len > 0 then sendMessage socket response (sa_addr dest) (sa_port dest) rtp else rtp))"

text \<open>\<open>ice_send_error_response\<close> (ice.c 640-672).\<close>

definition stun_error_response :: "StunMessage \<Rightarrow> 8 word \<Rightarrow> 8 word \<Rightarrow> string \<Rightarrow> StunMessage" where
  "stun_error_response m err_class err_num err =
     stun_zero_message\<lparr>tr_id := tr_id m, msgType := STUN_ERR_RESP,
        hasErrorCode := True, errorClass := err_class, errorNumber := err_num,
        errorReason := err, hasFingerprint := True\<rparr>"

definition ice_send_error_response ::
  "IceExternals \<Rightarrow> OrtpEventData \<Rightarrow> StunMessage \<Rightarrow> 8 word \<Rightarrow> 8 word \<Rightarrow> StunAddress4 \<Rightarrow> string
     \<Rightarrow> RtpSession \<Rightarrow> RtpSession" where
  "ice_send_error_response ext evt m err_class err_num dest err rtp =
     (let socket = ice_get_socket_from_rtp_session rtp evt in
      if socket < 0 then rtp
      else
        (let response = stun_error_response m err_class err_num err;
             len = stunEncodeMessage ext response None
         in if len > 0 then sendMessage socket response (sa_addr dest) (sa_port dest) rtp else rtp))"

text \<open>\<open>ice_send_indication\<close> (ice.c 674-698), for the pair at \<open>p\<close>.\<close>

definition ice_send_indication :: "IceExternals \<Rightarrow> IceCheckList \<Rightarrow> pair_ptr \<Rightarrow> RtpSession \<Rightarrow> RtpSession" where
  "ice_send_indication ext cl p rtp =
     (let pair = pair_mem cl p; cid = componentID (cand_mem cl (local pair)) in
      if cid \<noteq> 1 \<and> cid \<noteq> 2 then rtp
      else
        (let socket = (if cid = 1 then rtp_socket rtp else rtcp_socket rtp);
             rcand = cand_mem cl (remote pair);
             dest = stunParseHostName ext (ip (taddr rcand)) (word_of_int (port (taddr rcand)));
             indication = stun_zero_message\<lparr>msgType := STUN_INDICATION, hasFingerprint := True\<rparr>;
             len = stunEncodeMessage ext indication None
         in if len > 0 then sendMessage socket indication (fst dest) (snd dest) rtp else rtp))"

section \<open>Checks on a received binding request\<close>

text \<open>\<open>ice_check_received_binding_request_attributes\<close> (ice.c 723-751): the return value and
  the RTP session after the error response, if any.\<close>

definition ice_check_received_binding_request_attributes ::
  "IceExternals \<Rightarrow> OrtpEventData \<Rightarrow> StunMessage \<Rightarrow> StunAddress4 \<Rightarrow> RtpSession \<Rightarrow> int \<times> RtpSession" where
  "ice_check_received_binding_request_attributes ext evt m remote_addr rtp =
     (if \<not> hasMessageIntegrity m then
        (-1, ice_send_error_response ext evt m 4 0 remote_addr ''Missing MESSAGE-INTEGRITY attribute'' rtp)
      else if \<not> hasUsername m then
        (-1, ice_send_error_response ext evt m 4 0 remote_addr ''Missing USERNAME attribute'' rtp)
      else if \<not> hasFingerprint m then
        (-1, ice_send_error_response ext evt m 4 0 remote_addr ''Missing FINGERPRINT attribute'' rtp)
      else if \<not> hasPriority m then
        (-1, ice_send_error_response ext evt m 4 0 remote_addr ''Missing PRIORITY attribute'' rtp)
      else if \<not> hasIceControlling m \<and> \<not> hasIceControlled m then
        (-1, ice_send_error_response ext evt m 4 0 remote_addr
               ''Missing ICE-CONTROLLING or ICE-CONTROLLED attribute'' rtp)
      else (0, rtp))"

text \<open>\<open>ice_check_received_binding_request_integrity\<close> (ice.c 753-772): the length field at
  offset 2 is rewritten without the FINGERPRINT attribute, the HMAC is taken over the
  packet less its last 32 bytes, and compared with the hash of the message.\<close>

definition ice_check_received_binding_request_integrity ::
  "IceExternals \<Rightarrow> IceSession \<Rightarrow> IceCheckList \<Rightarrow> OrtpEventData \<Rightarrow> StunMessage \<Rightarrow> StunAddress4
     \<Rightarrow> RtpSession \<Rightarrow> int \<times> RtpSession" where
  "ice_check_received_binding_request_integrity ext sess cl evt m remote_addr rtp =
     (let mp = packet evt;
          newlen = msgLength m - 8;
          mp1 = mp[2 := ucast (drop_bit 8 newlen), 3 := ucast newlen];
          hmac = stunCalculateIntegrity_shortterm ext (take (length mp - 24 - 8) mp1)
                   (ice_check_list_local_pwd sess cl)
      in if take 20 (messageIntegrity m) \<noteq> take 20 hmac then
           (-1, ice_send_error_response ext evt m 4 1 remote_addr ''Wrong MESSAGE-INTEGRITY attribute'' rtp)
         else (0, rtp))"

text \<open>The C string functions used on the user name: the string a buffer holds ends at the
  first NUL; \<open>strchr\<close> gives the offset of the first occurrence; \<open>strncmp_is0 s1 s2 n\<close> is
  \<open>strncmp(s1, s2, n) == 0\<close> on two C strings.\<close>

definition c_string :: "string \<Rightarrow> string" where
  "c_string buf = takeWhile (\<lambda>c. c \<noteq> CHR 0x00) buf"

fun strchr :: "string \<Rightarrow> char \<Rightarrow> nat option" where
  "strchr [] c = None"
| "strchr (x # xs) c = (if x = c then Some 0 else map_option Suc (strchr xs c))"

fun strncmp_is0 :: "string \<Rightarrow> string \<Rightarrow> nat \<Rightarrow> bool" where
  "strncmp_is0 s1 s2 0 = True"
| "strncmp_is0 [] [] (Suc n) = True"
| "strncmp_is0 (a # s1) (b # s2) (Suc n) = (a = b \<and> strncmp_is0 s1 s2 n)"
| "strncmp_is0 [] (b # s2) (Suc n) = False"
| "strncmp_is0 (a # s1) [] (Suc n) = False"

text \<open>\<open>ice_check_received_binding_request_username\<close> (ice.c 774-789); \<open>username m\<close> holds the
  \<open>sizeValue\<close> bytes of the attribute, fewer than the 256 of the local buffer.\<close>

definition ice_check_received_binding_request_username ::
  "IceExternals \<Rightarrow> IceSession \<Rightarrow> IceCheckList \<Rightarrow> OrtpEventData \<Rightarrow> StunMessage \<Rightarrow> StunAddress4
     \<Rightarrow> RtpSession \<Rightarrow> int \<times> RtpSession" where
  "ice_check_received_binding_request_username ext sess cl evt m remote_addr rtp =
     (let uname = c_string (username m);
          colon = strchr uname CHR '':''
      in if colon = None \<or> \<not> strncmp_is0 uname (ice_check_list_local_ufrag sess cl) (the colon) then
           (-1, ice_send_error_response ext evt m 4 1 remote_addr ''Wrong USERNAME attribute'' rtp)
         else (0, rtp))"

text \<open>Recomputing pair priorities and \<open>ice_session_set_role\<close> (ice.c 438-455).\<close>

definition ice_check_list_compute_pair_priorities :: "IceRole \<Rightarrow> IceCheckList \<Rightarrow> IceCheckList" where
  "ice_check_list_compute_pair_priorities r cl =
     fold (\<lambda>p c. pair_update p (ice_compute_pair_priority (cand_mem c) r) c) (pairs cl) cl"

definition ice_session_compute_pair_priorities :: "IceSession \<Rightarrow> IceSession" where
  "ice_session_compute_pair_priorities s =
     s\<lparr>streams := map (ice_check_list_compute_pair_priorities (role s)) (streams s)\<rparr>"

definition ice_session_set_role :: "IceRole \<Rightarrow> IceSession \<Rightarrow> IceSession" where
  "ice_session_set_role r s =
     (if role s \<noteq> r then ice_session_compute_pair_priorities (s\<lparr>role := r\<rparr>) else s)"

text \<open>\<open>ice_check_received_binding_request_role_conflict\<close> (ice.c 791-814), on the session
  \<open>cl->session\<close>.\<close>

definition ice_check_received_binding_request_role_conflict ::
  "IceExternals \<Rightarrow> OrtpEventData \<Rightarrow> StunMessage \<Rightarrow> StunAddress4 \<Rightarrow> IceSession \<times> RtpSession
     \<Rightarrow> int \<times> IceSession \<times> RtpSession" where
  "ice_check_received_binding_request_role_conflict ext evt m remote_addr srtp =
     (let s = fst srtp; rtp = snd srtp in
      if role s = IR_Controlling \<and> hasIceControlling m then
        (if tie_breaker s \<ge> iceControlling m then
           (-1, s, ice_send_error_response ext evt m 4 87 remote_addr ''Role Conflict'' rtp)
         else (0, ice_session_set_role IR_Controlled s, rtp))
      else if role s = IR_Controlled \<and> hasIceControlled m then
        (if tie_breaker s \<ge> iceControlled m then
           (0, ice_session_set_role IR_Controlling s, rtp)
         else (-1, s, ice_send_error_response ext evt m 4 87 remote_addr ''Role Conflict'' rtp))
      else (0, s, rtp))"

section \<open>Learning peer reflexive candidates and triggering checks\<close>

text \<open>\<open>ice_fill_transport_address\<close> (ice.c 816-821).\<close>

definition ice_fill_transport_address :: "IceExternals \<Rightarrow> string \<Rightarrow> int \<Rightarrow> IceTransportAddress" where
  "ice_fill_transport_address ext ipstr prt = \<lparr>ip = take (ip_size ext) ipstr, port = prt\<rparr>"

text \<open>\<open>ice_compare_transport_addresses\<close> (ice.c 1495-1500) returns 0.\<close>

definition ice_compare_transport_addresses_is0 :: "IceTransportAddress \<Rightarrow> IceTransportAddress \<Rightarrow> bool" where
  "ice_compare_transport_addresses_is0 ta1 ta2 =
     (port ta1 = port ta2 \<and> length (ip ta1) = length (ip ta2) \<and> ip ta1 = ip ta2)"

text \<open>\<open>ice_find_candidate_from_transport_address\<close> (ice.c 717-720) over a candidate list.\<close>

definition find_candidate_from_transport_address ::
  "IceCheckList \<Rightarrow> cand_ptr list \<Rightarrow> IceTransportAddress \<Rightarrow> cand_ptr option" where
  "find_candidate_from_transport_address cl lst tad =
     ms_list_find_custom lst (\<lambda>c. ice_compare_transport_addresses_is0 (taddr (cand_mem cl c)) tad)"

text \<open>What \<open>printf\<close> writes for \<open>%llx\<close> and for \<open>%u\<close>.\<close>

definition hex_digit :: "nat \<Rightarrow> char" where
  "hex_digit d = ''0123456789abcdef'' ! d"

fun printf_llx :: "nat \<Rightarrow> string" where
  "printf_llx n = (if n < 16 then [hex_digit n] else printf_llx (n div 16) @ [hex_digit (n mod 16)])"

fun printf_u :: "nat \<Rightarrow> string" where
  "printf_u n = (if n < 10 then [hex_digit n] else printf_u (n div 10) @ [hex_digit (n mod 10)])"

declare printf_llx.simps [simp del]

declare printf_u.simps [simp del]

text \<open>
  \<open>ice_generate_arbitrary_foundation\<close> (ice.c 828-838), with the 32-byte buffer of its
  caller. Each round of the loop takes the next 64-bit number \<open>random()\<close> delivers; the
  result is \<open>None\<close> when every number given collides with a foundation in the list.
\<close>

fun ice_generate_arbitrary_foundation ::
  "64 word list \<Rightarrow> IceCheckList \<Rightarrow> cand_ptr list \<Rightarrow> string option" where
  "ice_generate_arbitrary_foundation [] cl lst = None"
| "ice_generate_arbitrary_foundation (r # rs) cl lst =
     (let fnd = take 31 (printf_llx (unat r)) in
      case ms_list_find_custom lst (\<lambda>c. foundation (cand_mem cl c) = fnd) of
        None \<Rightarrow> Some fnd
      | Some _ \<Rightarrow> ice_generate_arbitrary_foundation rs cl lst)"

text \<open>\<open>ice_learn_peer_reflexive_candidate\<close> (ice.c 840-862).\<close>

definition ice_learn_peer_reflexive_candidate ::
  "IceExternals \<Rightarrow> 64 word list \<Rightarrow> OrtpEventData \<Rightarrow> StunMessage \<Rightarrow> IceTransportAddress \<Rightarrow> IceCheckList
     \<Rightarrow> fault + (cand_ptr option \<times> IceCheckList)" where
  "ice_learn_peer_reflexive_candidate ext rnds evt m tad cl =
     (let cid = (case socket_type evt of OrtpRTPSocket \<Rightarrow> 1 | OrtpRTCPSocket \<Rightarrow> 2) in
      case find_candidate_from_transport_address cl (remote_candidates cl) tad of
        Some _ \<Rightarrow> Inr (None, cl)
      | None \<Rightarrow>
          (case ice_generate_arbitrary_foundation rnds cl (remote_candidates cl) of
             None \<Rightarrow> Inl OutOfRandomness
           | Some fnd \<Rightarrow>
               Inr (ice_add_remote_candidate ext ''prflx'' (ip tad) (port tad) cid (msg_priority m) fnd cl)))"

text \<open>\<open>ice_compare_pair_priorities\<close> (ice.c 1458-1461) and the sorted insertion of the list
  primitive: the new element goes before the first one it does not compare greater than,
  or last.\<close>

definition ice_compare_pair_priorities :: "IceCheckList \<Rightarrow> pair_ptr \<Rightarrow> pair_ptr \<Rightarrow> int" where
  "ice_compare_pair_priorities cl p1 p2 =
     (if pair_priority (pair_mem cl p1) < pair_priority (pair_mem cl p2) then 1 else 0)"

fun ms_list_insert_sorted :: "'a list \<Rightarrow> 'a \<Rightarrow> ('a \<Rightarrow> 'a \<Rightarrow> int) \<Rightarrow> 'a list" where
  "ms_list_insert_sorted [] d cmp = [d]"
| "ms_list_insert_sorted (x # xs) d cmp =
     (if cmp d x \<le> 0 then d # x # xs else x # ms_list_insert_sorted xs d cmp)"

text \<open>\<open>ice_pair_new\<close> (ice.c 246-263): the pair is built in the memory \<open>ms_new\<close> returns,
  whose \<open>transmission_time\<close> keeps whatever that memory held.\<close>

definition ice_pair_new :: "IceSession \<Rightarrow> cand_ptr \<Rightarrow> cand_ptr \<Rightarrow> IceCheckList \<Rightarrow> pair_ptr \<times> IceCheckList" where
  "ice_pair_new sess l r cl =
     (let p = pair_next cl;
          pair0 = ice_pair_set_state ICP_Frozen ((pair_mem cl p)\<lparr>local := l, remote := r\<rparr>);
          pair1 = pair0\<lparr>pair_is_default := (is_default (cand_mem cl l) \<and> is_default (cand_mem cl r)),
                       is_nominated := False, wait_transaction_timeout := False,
                       transactionID := 0, rto := ICE_DEFAULT_RTO_DURATION, retransmissions := 0,
                       pair_role := role sess\<rparr>;
          pair2 = ice_compute_pair_priority (cand_mem cl) (role sess) pair1
      in (p, cl\<lparr>pair_mem := (pair_mem cl)(p := pair2), pair_next := Suc p\<rparr>))"

text \<open>\<open>ice_find_pair_from_candidates\<close> (ice.c 864-867) over a list of pairs.\<close>

definition find_pair_from_candidates :: "IceCheckList \<Rightarrow> pair_ptr list \<Rightarrow> cand_ptr \<Rightarrow> cand_ptr \<Rightarrow> pair_ptr option" where
  "find_pair_from_candidates cl lst l r =
     ms_list_find_custom lst (\<lambda>p. local (pair_mem cl p) = l \<and> remote (pair_mem cl p) = r)"

text \<open>\<open>ice_trigger_connectivity_check_on_binding_request\<close> (ice.c 870-927).\<close>

definition ice_trigger_connectivity_check_on_binding_request ::
  "IceExternals \<Rightarrow> IceSession \<Rightarrow> RtpSession \<Rightarrow> OrtpEventData \<Rightarrow> cand_ptr option \<Rightarrow> IceTransportAddress
     \<Rightarrow> IceCheckList \<Rightarrow> pair_ptr option \<times> IceCheckList" where
  "ice_trigger_connectivity_check_on_binding_request ext sess rtp evt prflx_candidate remote_taddr cl =
     (let recvport = ice_get_recv_port_from_rtp_session rtp evt in
      if recvport < 0 then (None, cl)
      else
        (let local_taddr = ice_fill_transport_address ext (inet_ntoa ext (ipi_addr evt)) recvport in
         case find_candidate_from_transport_address cl (local_candidates cl) local_taddr of
           None \<Rightarrow> (None, cl)
         | Some l \<Rightarrow>
            (case (case prflx_candidate of
                     Some c \<Rightarrow> Some c
                   | None \<Rightarrow> find_candidate_from_transport_address cl (remote_candidates cl) remote_taddr) of
               None \<Rightarrow> (None, cl)
             | Some r \<Rightarrow>
                (case find_pair_from_candidates cl (check_list cl) l r of
                   None \<Rightarrow>
                     (let (p, cl1) = ice_pair_new sess l r cl;
                          cl2 = cl1\<lparr>pairs := ms_list_append (pairs cl1) p\<rparr>;
                          cl3 = cl2\<lparr>check_list := ms_list_insert_sorted (check_list cl2) p
                                                    (ice_compare_pair_priorities cl2)\<rparr>;
                          cl4 = pair_update p (ice_pair_set_state ICP_Waiting) cl3
                      in (Some p, ice_check_list_queue_triggered_check p cl4))
                 | Some p \<Rightarrow>
                     (case state (pair_mem cl p) of
                        ICP_Waiting \<Rightarrow>
                          (Some p, ice_check_list_queue_triggered_check p
                                     (pair_update p (ice_pair_set_state ICP_Waiting) cl))
                      | ICP_Frozen \<Rightarrow>
                          (Some p, ice_check_list_queue_triggered_check p
                                     (pair_update p (ice_pair_set_state ICP_Waiting) cl))
                      | ICP_Failed \<Rightarrow>
                          (Some p, ice_check_list_queue_triggered_check p
                                     (pair_update p (ice_pair_set_state ICP_Waiting) cl))
                      | ICP_InProgress \<Rightarrow>
                          (Some p, pair_update p (\<lambda>pr. pr\<lparr>wait_transaction_timeout := True\<rparr>) cl)
                      | ICP_Succeeded \<Rightarrow> (Some p, cl))))))"

text \<open>\<open>ice_update_nominated_flag_on_binding_request\<close> (ice.c 930-945).\<close>

definition ice_update_nominated_flag_on_binding_request ::
  "IceSession \<Rightarrow> StunMessage \<Rightarrow> pair_ptr \<Rightarrow> IceCheckList \<Rightarrow> IceCheckList" where
  "ice_update_nominated_flag_on_binding_request sess m p cl =
     (if hasUseCandidate m \<and> role sess = IR_Controlled then
        (case state (pair_mem cl p) of
           ICP_Succeeded \<Rightarrow> pair_update p (\<lambda>pr. pr\<lparr>is_nominated := True\<rparr>) cl
         | _ \<Rightarrow> cl)
      else cl)"

section \<open>Candidate foundations\<close>

definition cand_update :: "cand_ptr \<Rightarrow> (IceCandidate \<Rightarrow> IceCandidate) \<Rightarrow> IceCheckList \<Rightarrow> IceCheckList" where
  "cand_update c f cl = cl\<lparr>cand_mem := (cand_mem cl)(c := f (cand_mem cl c))\<rparr>"

text \<open>\<open>ice_find_candidate_with_same_foundation\<close> (ice.c 1369-1376) returns 0.\<close>

definition ice_find_candidate_with_same_foundation_is0 :: "IceCheckList \<Rightarrow> cand_ptr \<Rightarrow> cand_ptr \<Rightarrow> bool" where
  "ice_find_candidate_with_same_foundation_is0 cl c1 c2 =
     (c1 \<noteq> c2 \<and> base (cand_mem cl c1) \<noteq> None \<and> base (cand_mem cl c2) \<noteq> None
      \<and> ctype (cand_mem cl c1) = ctype (cand_mem cl c2)
      \<and> length (ip (taddr (cand_mem cl (the (base (cand_mem cl c1))))))
          = length (ip (taddr (cand_mem cl (the (base (cand_mem cl c2))))))
      \<and> ip (taddr (cand_mem cl (the (base (cand_mem cl c1)))))
          = ip (taddr (cand_mem cl (the (base (cand_mem cl c2))))))"

text \<open>\<open>ice_compute_candidate_foundation\<close> (ice.c 1378-1394).\<close>

definition ice_compute_candidate_foundation :: "IceExternals \<Rightarrow> cand_ptr \<Rightarrow> IceCheckList \<Rightarrow> IceCheckList" where
  "ice_compute_candidate_foundation ext c cl =
     (let l = ms_list_find_custom (local_candidates cl)
                (\<lambda>c1. ice_find_candidate_with_same_foundation_is0 cl c1 c)
      in if l \<noteq> None \<and> length (foundation (cand_mem cl (the l))) > 0 then
           cand_update c (\<lambda>cd. cd\<lparr>foundation := take (foundation_size ext - 1)
                                                   (foundation (cand_mem cl (the l)))\<rparr>) cl
         else
           (cand_update c (\<lambda>cd. cd\<lparr>foundation := take (foundation_size ext - 2)
                                                    (printf_u (unat (foundation_generator cl)))\<rparr>) cl)
             \<lparr>foundation_generator := foundation_generator cl + 1\<rparr>)"

definition ice_check_list_compute_candidates_foundations :: "IceExternals \<Rightarrow> IceCheckList \<Rightarrow> IceCheckList" where
  "ice_check_list_compute_candidates_foundations ext cl =
     fold (ice_compute_candidate_foundation ext) (local_candidates cl) cl"

section \<open>Handling a binding response\<close>

text \<open>\<open>ice_find_pair_from_transactionID\<close> (ice.c 966-969) over the check list.\<close>

definition find_pair_from_transactionID :: "IceCheckList \<Rightarrow> 96 word \<Rightarrow> pair_ptr option" where
  "find_pair_from_transactionID cl tid =
     ms_list_find_custom (check_list cl) (\<lambda>p. transactionID (pair_mem cl p) = tid)"

text \<open>\<open>ice_check_received_binding_response_addresses\<close> (ice.c 971-987).\<close>

definition ice_check_received_binding_response_addresses ::
  "IceExternals \<Rightarrow> RtpSession \<Rightarrow> OrtpEventData \<Rightarrow> pair_ptr \<Rightarrow> StunAddress4 \<Rightarrow> IceCheckList
     \<Rightarrow> int \<times> IceCheckList" where
  "ice_check_received_binding_response_addresses ext rtp evt p remote_addr cl =
     (let recvport = ice_get_recv_port_from_rtp_session rtp evt in
      if recvport < 0 then (-1, cl)
      else
        (let pair = pair_mem cl p;
             rc = cand_mem cl (remote pair);
             lc = cand_mem cl (local pair);
             dest = stunParseHostName ext (ip (taddr rc)) (word_of_int (port (taddr rc)));
             loc = stunParseHostName ext (ip (taddr lc)) (word_of_int recvport)
         in if sa_addr remote_addr \<noteq> fst dest \<or> sa_port remote_addr \<noteq> snd dest
               \<or> ipi_addr evt \<noteq> fst loc \<or> uint (snd loc) \<noteq> port (taddr lc)
            then (-1, pair_update p (ice_pair_set_state ICP_Failed) cl)
            else (0, cl)))"

text \<open>\<open>ice_check_received_binding_response_attributes\<close> (ice.c 989-1004).\<close>

definition ice_check_received_binding_response_attributes :: "StunMessage \<Rightarrow> int" where
  "ice_check_received_binding_response_attributes m =
     (if \<not> hasUsername m then -1
      else if \<not> hasFingerprint m then -1
      else if \<not> hasXorMappedAddress m then -1
      else 0)"

text \<open>\<open>ice_discover_peer_reflexive_candidate\<close> (ice.c 1006-1025). When the candidate cannot
  be added, \<open>ice_compute_candidate_foundation\<close> is called with NULL and dereferences it.\<close>

definition ice_discover_peer_reflexive_candidate ::
  "IceExternals \<Rightarrow> pair_ptr \<Rightarrow> StunMessage \<Rightarrow> IceCheckList \<Rightarrow> fault + (cand_ptr option \<times> IceCheckList)" where
  "ice_discover_peer_reflexive_candidate ext p m cl =
     (let tad = \<lparr>ip = take (ip_size ext - 1) (inet_ntoa ext (sa_addr (xorMappedAddress m))),
                 port = uint (sa_port (xorMappedAddress m))\<rparr>
      in case find_candidate_from_transport_address cl (local_candidates cl) tad of
           Some _ \<Rightarrow> Inr (None, cl)
         | None \<Rightarrow>
            (case ice_add_local_candidate ext ''prflx'' (ip tad) (port tad)
                    (componentID (cand_mem cl (local (pair_mem cl p)))) (Some (local (pair_mem cl p))) cl of
               (None, cl1) \<Rightarrow> Inl NullDereference
             | (Some c, cl1) \<Rightarrow> Inr (Some c, ice_compute_candidate_foundation ext c cl1)))"

text \<open>\<open>ice_compare_valid_pair_priorities\<close> and \<open>ice_find_valid_pair\<close> (ice.c 1027-1035).\<close>

definition ice_compare_valid_pair_priorities ::
  "IceCheckList \<Rightarrow> IceValidCandidatePair \<Rightarrow> IceValidCandidatePair \<Rightarrow> int" where
  "ice_compare_valid_pair_priorities cl vp1 vp2 = ice_compare_pair_priorities cl (valid vp1) (valid vp2)"

definition ice_find_valid_pair_is0 :: "IceValidCandidatePair \<Rightarrow> IceValidCandidatePair \<Rightarrow> bool" where
  "ice_find_valid_pair_is0 vp1 vp2 =
     (valid vp1 = valid vp2 \<and> generated_from vp1 = generated_from vp2)"

text \<open>\<open>ice_construct_valid_pair\<close> (ice.c 1038-1085).\<close>

definition ice_construct_valid_pair ::
  "IceExternals \<Rightarrow> IceSession \<Rightarrow> RtpSession \<Rightarrow> OrtpEventData \<Rightarrow> cand_ptr option \<Rightarrow> pair_ptr \<Rightarrow> IceCheckList
     \<Rightarrow> pair_ptr option \<times> IceCheckList" where
  "ice_construct_valid_pair ext sess rtp evt prflx_candidate succeeded_pair cl =
     (case (case prflx_candidate of
              Some c \<Rightarrow> Some c
            | None \<Rightarrow>
               (let recvport = ice_get_recv_port_from_rtp_session rtp evt in
                if recvport < 0 then None
                else find_candidate_from_transport_address cl (local_candidates cl)
                       (ice_fill_transport_address ext (inet_ntoa ext (ipi_addr evt)) recvport))) of
        None \<Rightarrow> (None, cl)
      | Some l \<Rightarrow>
          (let r = remote (pair_mem cl succeeded_pair);
               (p, cl1) = (case find_pair_from_candidates cl (check_list cl) l r of
                             None \<Rightarrow> (let (q, c1) = ice_pair_new sess l r cl
                                       in (q, c1\<lparr>pairs := ms_list_append (pairs c1) q\<rparr>))
                           | Some q \<Rightarrow> (q, cl));
               valid_pair = \<lparr>valid = p, generated_from = succeeded_pair\<rparr>
           in case ms_list_find_custom (valid_list cl1) (\<lambda>vp. ice_find_valid_pair_is0 vp valid_pair) of
                None \<Rightarrow> (Some p, cl1\<lparr>valid_list := ms_list_insert_sorted (valid_list cl1) valid_pair
                                                       (ice_compare_valid_pair_priorities cl1)\<rparr>)
              | Some _ \<Rightarrow> (Some p, cl1)))"

text \<open>\<open>ice_compare_pair_foundations\<close> (ice.c 1087-1091) returns 0.\<close>

definition ice_compare_pair_foundations_is0 :: "IceCheckList \<Rightarrow> pair_ptr \<Rightarrow> pair_ptr \<Rightarrow> bool" where
  "ice_compare_pair_foundations_is0 cl p1 p2 =
     (foundation (cand_mem cl (local (pair_mem cl p1))) = foundation (cand_mem cl (local (pair_mem cl p2)))
      \<and> foundation (cand_mem cl (remote (pair_mem cl p1))) = foundation (cand_mem cl (remote (pair_mem cl p2))))"

text \<open>\<open>ice_change_state_of_frozen_pairs_to_waiting\<close> (ice.c 1093-1099).\<close>

definition ice_change_state_of_frozen_pairs_to_waiting :: "pair_ptr \<Rightarrow> pair_ptr \<Rightarrow> IceCheckList \<Rightarrow> IceCheckList" where
  "ice_change_state_of_frozen_pairs_to_waiting succeeded_pair p cl =
     (if p \<noteq> succeeded_pair \<and> state (pair_mem cl p) = ICP_Frozen
          \<and> ice_compare_pair_foundations_is0 cl p succeeded_pair
      then pair_update p (ice_pair_set_state ICP_Waiting) cl
      else cl)"

text \<open>\<open>ice_update_pair_states_on_binding_response\<close> (ice.c 1102-1111).\<close>

definition ice_update_pair_states_on_binding_response :: "pair_ptr \<Rightarrow> IceCheckList \<Rightarrow> IceCheckList" where
  "ice_update_pair_states_on_binding_response p cl =
     (let cl1 = pair_update p (ice_pair_set_state ICP_Succeeded) cl
      in fold (ice_change_state_of_frozen_pairs_to_waiting p) (check_list cl1) cl1)"

text \<open>\<open>ice_update_nominated_flag_on_binding_response\<close> (ice.c 1114-1128); \<open>valid_pair\<close> is
  NULL when \<open>ice_construct_valid_pair\<close> returned NULL, and is not tested before it is
  written.\<close>

definition ice_update_nominated_flag_on_binding_response ::
  "IceSession \<Rightarrow> pair_ptr option \<Rightarrow> pair_ptr \<Rightarrow> IceCandidatePairState \<Rightarrow> IceCheckList \<Rightarrow> fault + IceCheckList" where
  "ice_update_nominated_flag_on_binding_response sess valid_pair succeeded_pair previous_state cl =
     (if (case role sess of
            IR_Controlling \<Rightarrow> is_nominated (pair_mem cl succeeded_pair)
          | IR_Controlled \<Rightarrow> previous_state = ICP_InProgress)
      then (case valid_pair of
              None \<Rightarrow> Inl NullDereference
            | Some v \<Rightarrow> Inr (pair_update v (\<lambda>pr. pr\<lparr>is_nominated := True\<rparr>) cl))
      else Inr cl)"

section \<open>Concluding the processing of a check list\<close>

text \<open>\<open>ice_perform_regular_nomination\<close> (ice.c 1651-1657).\<close>

definition ice_perform_regular_nomination :: "IceValidCandidatePair \<Rightarrow> IceCheckList \<Rightarrow> IceCheckList" where
  "ice_perform_regular_nomination vp cl =
     (if \<not> is_nominated (pair_mem cl (valid vp)) then
        ice_check_list_queue_triggered_check (generated_from vp)
          (pair_update (generated_from vp) (\<lambda>pr. pr\<lparr>is_nominated := True\<rparr>) cl)
      else cl)"

text \<open>
  The loop of \<open>ice_remove_waiting_and_frozen_pairs_from_list\<close> (ice.c 1659-1674) over the
  elements \<open>rest\<close> still to visit, \<open>kept\<close> being the elements before them. After a removal the
  loop goes on only when a next element exists and that element has a predecessor; when
  the removed element was the head of the list the loop ends.
\<close>

fun remove_waiting_and_frozen_loop ::
  "IceCheckList \<Rightarrow> 16 word \<Rightarrow> pair_ptr list \<Rightarrow> pair_ptr list \<Rightarrow> pair_ptr list" where
  "remove_waiting_and_frozen_loop cl cid kept [] = kept"
| "remove_waiting_and_frozen_loop cl cid kept (e # rest) =
     (if (state (pair_mem cl e) = ICP_Waiting \<or> state (pair_mem cl e) = ICP_Frozen)
          \<and> componentID (cand_mem cl (local (pair_mem cl e))) = cid
      then (if rest \<noteq> [] \<and> kept \<noteq> [] then remove_waiting_and_frozen_loop cl cid kept rest
            else kept @ rest)
      else remove_waiting_and_frozen_loop cl cid (kept @ [e]) rest)"

definition ice_remove_waiting_and_frozen_pairs_from_list ::
  "IceCheckList \<Rightarrow> pair_ptr list \<Rightarrow> 16 word \<Rightarrow> pair_ptr list" where
  "ice_remove_waiting_and_frozen_pairs_from_list cl lst cid = remove_waiting_and_frozen_loop cl cid [] lst"

text \<open>\<open>ice_stop_retransmission_for_in_progress_pair\<close> (ice.c 1676-1682).\<close>

definition ice_stop_retransmission_for_in_progress_pair :: "16 word \<Rightarrow> pair_ptr \<Rightarrow> IceCheckList \<Rightarrow> IceCheckList" where
  "ice_stop_retransmission_for_in_progress_pair cid p cl =
     (if state (pair_mem cl p) = ICP_InProgress \<and> componentID (cand_mem cl (local (pair_mem cl p))) = cid
      then pair_update p (\<lambda>pr. pr\<lparr>retransmissions := ICE_MAX_RETRANSMISSIONS\<rparr>) cl
      else cl)"

text \<open>\<open>ice_conclude_waiting_frozen_and_inprogress_pairs\<close> (ice.c 1684-1691).\<close>

definition ice_conclude_waiting_frozen_and_inprogress_pairs ::
  "IceValidCandidatePair \<Rightarrow> IceCheckList \<Rightarrow> IceCheckList" where
  "ice_conclude_waiting_frozen_and_inprogress_pairs vp cl =
     (if is_nominated (pair_mem cl (valid vp)) then
        (let cid = componentID (cand_mem cl (local (pair_mem cl (valid vp))));
             cl1 = cl\<lparr>check_list := ice_remove_waiting_and_frozen_pairs_from_list cl (check_list cl) cid\<rparr>;
             cl2 = cl1\<lparr>triggered_checks_queue :=
                         ice_remove_waiting_and_frozen_pairs_from_list cl1 (triggered_checks_queue cl1) cid\<rparr>
         in fold (ice_stop_retransmission_for_in_progress_pair cid) (check_list cl2) cl2)
      else cl)"

text \<open>\<open>ice_find_nominated_valid_pair_from_componentID\<close> (ice.c 1693-1696) over the valid list.\<close>

definition find_nominated_valid_pair_from_componentID ::
  "IceCheckList \<Rightarrow> 16 word \<Rightarrow> IceValidCandidatePair option" where
  "find_nominated_valid_pair_from_componentID cl cid =
     ms_list_find_custom (valid_list cl)
       (\<lambda>vp. is_nominated (pair_mem cl (valid vp))
              \<and> componentID (cand_mem cl (local (pair_mem cl (valid vp)))) = cid)"

text \<open>The two tests of \<open>ice_conclude_processing\<close>: \<open>cb.result\<close> after the loop over the
  component IDs (ice.c 1730-1732), and after the loop over the check list (1745-1747).\<close>

definition all_componentIDs_have_nominated_valid_pair :: "IceCheckList \<Rightarrow> bool" where
  "all_componentIDs_have_nominated_valid_pair cl =
     fold (\<lambda>c res. if find_nominated_valid_pair_from_componentID cl (componentID (cand_mem cl c)) = None
                     then False else res)
          (componentIDs cl) True"

definition ice_find_not_failed_or_succeeded_pair :: "IceCheckList \<Rightarrow> pair_ptr option" where
  "ice_find_not_failed_or_succeeded_pair cl =
     ms_list_find_custom (check_list cl)
       (\<lambda>p. state (pair_mem cl p) \<noteq> ICP_Failed \<and> state (pair_mem cl p) \<noteq> ICP_Succeeded)"

definition all_pairs_in_failed_or_succeeded_state :: "IceCheckList \<Rightarrow> bool" where
  "all_pairs_in_failed_or_succeeded_state cl =
     fold (\<lambda>p res. if ice_find_not_failed_or_succeeded_pair cl \<noteq> None then False else res)
          (check_list cl) True"

text \<open>
  \<open>ice_conclude_processing\<close> (ice.c 1716-1757). Each call of the success callback is
  counted in \<open>success_cb_calls\<close>; calling it when none was registered is a fault.
\<close>

definition ice_conclude_processing :: "IceSession \<Rightarrow> IceCheckList \<Rightarrow> fault + IceCheckList" where
  "ice_conclude_processing sess cl =
     (let cl1 = (if role sess = IR_Controlling
                 then fold ice_perform_regular_nomination (valid_list cl) cl else cl);
          cl2 = fold ice_conclude_waiting_frozen_and_inprogress_pairs (valid_list cl1) cl1
      in if all_componentIDs_have_nominated_valid_pair cl2 then
           (if cl_state cl2 \<noteq> ICL_Completed then
              (if success_cb_registered cl2 then
                 Inr (cl2\<lparr>cl_state := ICL_Completed,
                          success_cb_calls := Suc (success_cb_calls cl2),
                          keepalive_time := ticker_time sess\<rparr>)
               else Inl NullDereference)
            else Inr cl2)
         else if all_pairs_in_failed_or_succeeded_state cl2 then
           (if cl_state cl2 \<noteq> ICL_Failed then Inr (cl2\<lparr>cl_state := ICL_Failed\<rparr>) else Inr cl2)
         else Inr cl2)"

section \<open>The handlers of received STUN messages\<close>

text \<open>The check list \<open>cl\<close> of the C code is stream number \<open>i\<close> of its session.\<close>

definition stream_update :: "nat \<Rightarrow> (IceCheckList \<Rightarrow> IceCheckList) \<Rightarrow> IceSession \<Rightarrow> IceSession" where
  "stream_update i f s = s\<lparr>streams := (streams s)[i := f (streams s ! i)]\<rparr>"

text \<open>\<open>ice_handle_received_binding_request\<close> (ice.c 947-964).\<close>

definition ice_handle_received_binding_request ::
  "IceExternals \<Rightarrow> nat \<Rightarrow> 64 word list \<Rightarrow> OrtpEventData \<Rightarrow> StunMessage \<Rightarrow> StunAddress4 \<Rightarrow> string
     \<Rightarrow> IceSession \<times> RtpSession \<Rightarrow> fault + (IceSession \<times> RtpSession)" where
  "ice_handle_received_binding_request ext i rnds evt m remote_addr src6host srtp =
     (let s = fst srtp; rtp = snd srtp;
          (rc1, rtp1) = ice_check_received_binding_request_attributes ext evt m remote_addr rtp
      in if rc1 < 0 then Inr (s, rtp1)
         else
          (let (rc2, rtp2) = ice_check_received_binding_request_integrity ext s (streams s ! i) evt m remote_addr rtp1
           in if rc2 < 0 then Inr (s, rtp2)
              else
               (let (rc3, rtp3) = ice_check_received_binding_request_username ext s (streams s ! i) evt m remote_addr rtp2
                in if rc3 < 0 then Inr (s, rtp3)
                   else
                    (let (rc4, s4, rtp4) = ice_check_received_binding_request_role_conflict ext evt m remote_addr (s, rtp3)
                     in if rc4 < 0 then Inr (s4, rtp4)
                        else
                         (let tad = ice_fill_transport_address ext src6host (uint (sa_port remote_addr))
                          in case ice_learn_peer_reflexive_candidate ext rnds evt m tad (streams s4 ! i) of
                               Inl f \<Rightarrow> Inl f
                             | Inr (prflx_candidate, cl5) \<Rightarrow>
                                (let (pair, cl6) = ice_trigger_connectivity_check_on_binding_request
                                                      ext s4 rtp4 evt prflx_candidate tad cl5;
                                     cl7 = (case pair of
                                              None \<Rightarrow> cl6
                                            | Some p \<Rightarrow> ice_update_nominated_flag_on_binding_request s4 m p cl6);
                                     rtp8 = ice_send_binding_response ext evt m remote_addr rtp4
                                 in case ice_conclude_processing s4 cl7 of
                                      Inl f \<Rightarrow> Inl f
                                    | Inr cl9 \<Rightarrow> Inr (stream_update i (\<lambda>_. cl9) s4, rtp8)))))))"

text \<open>\<open>ice_handle_received_binding_response\<close> (ice.c 1135-1169); it reads the session and the
  RTP session and changes the check list only.\<close>

definition ice_handle_received_binding_response ::
  "IceExternals \<Rightarrow> IceSession \<Rightarrow> RtpSession \<Rightarrow> OrtpEventData \<Rightarrow> StunMessage \<Rightarrow> StunAddress4 \<Rightarrow> IceCheckList
     \<Rightarrow> fault + IceCheckList" where
  "ice_handle_received_binding_response ext sess rtp evt m remote_addr cl =
     (case find_pair_from_transactionID cl (tr_id m) of
        None \<Rightarrow> Inr cl
      | Some succeeded_pair \<Rightarrow>
         (let (rc1, cl1) = ice_check_received_binding_response_addresses ext rtp evt succeeded_pair remote_addr cl
          in if rc1 < 0 then Inr cl1
             else if ice_check_received_binding_response_attributes m < 0 then Inr cl1
             else
              (let succeeded_pair_previous_state = state (pair_mem cl1 succeeded_pair)
               in case ice_discover_peer_reflexive_candidate ext succeeded_pair m cl1 of
                    Inl f \<Rightarrow> Inl f
                  | Inr (prflx_candidate, cl2) \<Rightarrow>
                     (let (valid_pair, cl3) = ice_construct_valid_pair ext sess rtp evt prflx_candidate
                                                succeeded_pair cl2;
                          cl4 = ice_update_pair_states_on_binding_response succeeded_pair cl3
                      in case ice_update_nominated_flag_on_binding_response sess valid_pair succeeded_pair
                                succeeded_pair_previous_state cl4 of
                           Inl f \<Rightarrow> Inl f
                         | Inr cl5 \<Rightarrow> ice_conclude_processing sess cl5))))"

text \<open>\<open>ice_handle_received_error_response\<close> (ice.c 1171-1205).\<close>

definition ice_handle_received_error_response :: "nat \<Rightarrow> StunMessage \<Rightarrow> IceSession \<Rightarrow> fault + IceSession" where
  "ice_handle_received_error_response i m s =
     (case find_pair_from_transactionID (streams s ! i) (tr_id m) of
        None \<Rightarrow> Inr s
      | Some p \<Rightarrow>
         (let s1 = stream_update i (pair_update p (ice_pair_set_state ICP_Failed)) s;
              s2 = (if hasErrorCode m \<and> errorClass m = 4 \<and> errorNumber m = 87 then
                      (let s3 = (case pair_role (pair_mem (streams s1 ! i) p) of
                                   IR_Controlling \<Rightarrow> ice_session_set_role IR_Controlled s1
                                 | IR_Controlled \<Rightarrow> ice_session_set_role IR_Controlling s1)
                       in stream_update i
                            (\<lambda>c. ice_check_list_queue_triggered_check p
                                    (pair_update p (ice_pair_set_state ICP_Waiting) c)) s3)
                    else s1)
          in case ice_conclude_processing s2 (streams s2 ! i) of
               Inl f \<Rightarrow> Inl f
             | Inr cl3 \<Rightarrow> Inr (stream_update i (\<lambda>_. cl3) s2)))"

text \<open>
  \<open>ice_handle_stun_packet\<close> (ice.c 1207-1263). A check list that is not a stream of the
  session has no session and the packet is ignored. For an IPv6 peer \<open>udp_remote\<close> stays
  NULL and is dereferenced when the remote address is read.
\<close>

definition ice_handle_stun_packet ::
  "IceExternals \<Rightarrow> nat \<Rightarrow> 64 word list \<Rightarrow> OrtpEventData \<Rightarrow> IceSession \<times> RtpSession
     \<Rightarrow> fault + (IceSession \<times> RtpSession)" where
  "ice_handle_stun_packet ext i rnds evt srtp =
     (let s = fst srtp; rtp = snd srtp in
      if \<not> i < length (streams s) then Inr (s, rtp)
      else
        (case stunParseMessage ext (packet evt) of
           None \<Rightarrow> Inr (s, rtp)
         | Some m \<Rightarrow>
            (if ep_family evt = AF_OTHER then Inr (s, rtp)
             else
              (case ep_host evt of
                 None \<Rightarrow> Inr (s, rtp)
               | Some src6host \<Rightarrow>
                  (if ep_family evt = AF_INET6 then Inl NullDereference
                   else
                    (let remote_addr = \<lparr>sa_addr = ep_addr evt, sa_port = ep_port evt\<rparr> in
                     case msgType m of
                       STUN_REQUEST \<Rightarrow>
                         ice_handle_received_binding_request ext i rnds evt m remote_addr src6host (s, rtp)
                     | STUN_SUCCESS_RESP \<Rightarrow>
                         (case ice_handle_received_binding_response ext s rtp evt m remote_addr (streams s ! i) of
                            Inl f \<Rightarrow> Inl f
                          | Inr cl1 \<Rightarrow> Inr (stream_update i (\<lambda>_. cl1) s, rtp))
                     | STUN_ERR_RESP \<Rightarrow>
                         (case ice_handle_received_error_response i m s of
                            Inl f \<Rightarrow> Inl f
                          | Inr s1 \<Rightarrow> Inr (s1, rtp))
                     | STUN_INDICATION \<Rightarrow> Inr (s, rtp)))))))"

section \<open>The scheduler\<close>

text \<open>\<open>ice_send_keepalive_packets\<close> (ice.c 700-715).\<close>

definition ice_send_keepalive_packets :: "IceExternals \<Rightarrow> IceCheckList \<Rightarrow> RtpSession \<Rightarrow> RtpSession" where
  "ice_send_keepalive_packets ext cl rtp =
     fold (\<lambda>c r. case find_nominated_valid_pair_from_componentID cl (componentID (cand_mem cl c)) of
                    None \<Rightarrow> r
                  | Some vp \<Rightarrow> ice_send_indication ext cl (valid vp) r)
          (componentIDs cl) rtp"

text \<open>\<open>ice_find_pair_from_state\<close> (ice.c 1774-1777) over the check list, and the flag
  \<open>retransmissions_pending\<close> after the loop of ice.c 1855.\<close>

definition find_pair_from_state :: "IceCheckList \<Rightarrow> IceCandidatePairState \<Rightarrow> pair_ptr option" where
  "find_pair_from_state cl st = ms_list_find_custom (check_list cl) (\<lambda>p. state (pair_mem cl p) = st)"

definition retransmissions_pending :: "IceCheckList \<Rightarrow> bool" where
  "retransmissions_pending cl =
     fold (\<lambda>p res. if state (pair_mem cl p) = ICP_InProgress
                        \<and> retransmissions (pair_mem cl p) \<le> ICE_MAX_RETRANSMISSIONS
                     then True else res)
          (check_list cl) False"

text \<open>
  \<open>ice_check_list_process\<close> (ice.c 1786-1865) for a check list that has a session; \<open>new_id\<close>
  is the transaction ID the STUN codec draws for a request sent in this call.
\<close>

definition ice_check_list_process ::
  "IceExternals \<Rightarrow> IceSession \<Rightarrow> 96 word \<Rightarrow> IceCheckList \<times> RtpSession \<Rightarrow> fault + (IceCheckList \<times> RtpSession)" where
  "ice_check_list_process ext sess new_id clr =
     (let cl = fst clr; rtp = snd clr in
      if session_state sess = IS_Stopped \<or> session_state sess = IS_Failed then Inr (cl, rtp)
      else if cl_state cl = ICL_Failed then Inr (cl, rtp)
      else
        (let curtime = ticker_time sess;
             (cl0, rtp0) =
               (if cl_state cl = ICL_Completed
                     \<and> curtime - keepalive_time cl \<ge> ucast (keepalive_timeout sess) * 1000
                then (cl\<lparr>keepalive_time := curtime\<rparr>, ice_send_keepalive_packets ext cl rtp)
                else (cl, rtp));
             (cl1, rtp1) = fold (ice_handle_connectivity_check_retransmission ext sess new_id curtime)
                             (check_list cl0) (cl0, rtp0)
         in if curtime - ta_time cl1 < ucast (ta sess) then Inr (cl1, rtp1)
            else
              (let cl2 = cl1\<lparr>ta_time := curtime\<rparr>;
                   (popped, cl3) = ice_check_list_pop_triggered_check cl2
               in case popped of
                    Some p \<Rightarrow> Inr (ice_send_binding_request ext sess new_id p (cl3, rtp1))
                  | None \<Rightarrow>
                     (case (if cl_state cl3 = ICL_Running then find_pair_from_state cl3 ICP_Waiting else None) of
                        Some p \<Rightarrow> Inr (ice_send_binding_request ext sess new_id p (cl3, rtp1))
                      | None \<Rightarrow>
                         (case (if cl_state cl3 = ICL_Running then find_pair_from_state cl3 ICP_Frozen else None) of
                            Some p \<Rightarrow> Inr (ice_send_binding_request ext sess new_id p (cl3, rtp1))
                          | None \<Rightarrow>
                             (if retransmissions_pending cl3 then Inr (cl3, rtp1)
                              else (case ice_conclude_processing sess cl3 of
                                      Inl f \<Rightarrow> Inl f
                                    | Inr cl4 \<Rightarrow> Inr (cl4, rtp1))))))))"

definition ice_check_list_process_stream ::
  "IceExternals \<Rightarrow> nat \<Rightarrow> 96 word \<Rightarrow> IceSession \<times> RtpSession \<Rightarrow> fault + (IceSession \<times> RtpSession)" where
  "ice_check_list_process_stream ext i new_id srtp =
     (let s = fst srtp; rtp = snd srtp in
      if \<not> i < length (streams s) then Inr (s, rtp)
      else (case ice_check_list_process ext s new_id (streams s ! i, rtp) of
              Inl f \<Rightarrow> Inl f
            | Inr (cl1, rtp1) \<Rightarrow> Inr (stream_update i (\<lambda>_. cl1) s, rtp1)))"

section \<open>Sessions, check lists and pairing\<close>

text \<open>\<open>ice_session_init\<close> (ice.c 143-160); the tie-breaker and the credentials are the values
  \<open>random()\<close> produces, and the ticker starts at time 0.\<close>

definition ice_session_init :: "64 word \<Rightarrow> string \<Rightarrow> string \<Rightarrow> IceSession" where
  "ice_session_init tb ufrag pwd =
     \<lparr>streams = [], session_state = IS_Stopped, role = IR_Controlling, tie_breaker = tb,
      ta = ICE_DEFAULT_TA_DURATION, keepalive_timeout = ICE_DEFAULT_KEEPALIVE_TIMEOUT,
      max_connectivity_checks = of_nat ICE_MAX_NB_CANDIDATE_PAIRS,
      local_ufrag = take 8 ufrag, local_pwd = take 24 pwd,
      remote_ufrag = None, remote_pwd = None, ticker_time = 0\<rparr>"

text \<open>\<open>ice_check_list_init\<close> (ice.c 198-208) on fresh memory: the two stores hold nothing
  that is in use, and no success callback is set.\<close>

definition ice_check_list_new ::
  "(cand_ptr \<Rightarrow> IceCandidate) \<Rightarrow> (pair_ptr \<Rightarrow> IceCandidatePair) \<Rightarrow> IceCheckList" where
  "ice_check_list_new cm pm =
     \<lparr>cand_mem = cm, cand_next = 0, pair_mem = pm, pair_next = 0,
      cl_remote_ufrag = None, cl_remote_pwd = None,
      local_candidates = [], remote_candidates = [], pairs = [],
      triggered_checks_queue = [], check_list = [], valid_list = [],
      componentIDs = [], foundations = [], cl_state = ICL_Running,
      ta_time = 0, keepalive_time = 0, foundation_generator = 1,
      success_cb_registered = False, success_cb_calls = 0\<rparr>"

definition ice_check_list_register_success_cb :: "IceCheckList \<Rightarrow> IceCheckList" where
  "ice_check_list_register_success_cb cl = cl\<lparr>success_cb_registered := True\<rparr>"

definition ice_session_add_check_list :: "IceCheckList \<Rightarrow> IceSession \<Rightarrow> IceSession" where
  "ice_session_add_check_list cl s = s\<lparr>streams := ms_list_append (streams s) cl\<rparr>"

definition ice_session_set_max_connectivity_checks :: "8 word \<Rightarrow> IceSession \<Rightarrow> IceSession" where
  "ice_session_set_max_connectivity_checks n s = s\<lparr>max_connectivity_checks := n\<rparr>"

definition ice_session_set_keepalive_timeout :: "8 word \<Rightarrow> IceSession \<Rightarrow> IceSession" where
  "ice_session_set_keepalive_timeout t s =
     s\<lparr>keepalive_timeout := (if t < ICE_DEFAULT_KEEPALIVE_TIMEOUT then ICE_DEFAULT_KEEPALIVE_TIMEOUT else t)\<rparr>"

text \<open>\<open>ice_set_credentials\<close> (ice.c 1871-1884) and its three callers.\<close>

definition ice_session_set_local_credentials :: "string \<Rightarrow> string \<Rightarrow> IceSession \<Rightarrow> IceSession" where
  "ice_session_set_local_credentials ufrag pwd s =
     s\<lparr>local_ufrag := take 256 ufrag, local_pwd := take 256 pwd\<rparr>"

definition ice_session_set_remote_credentials :: "string \<Rightarrow> string \<Rightarrow> IceSession \<Rightarrow> IceSession" where
  "ice_session_set_remote_credentials ufrag pwd s =
     s\<lparr>remote_ufrag := Some (take 256 ufrag), remote_pwd := Some (take 256 pwd)\<rparr>"

definition ice_check_list_set_remote_credentials :: "string \<Rightarrow> string \<Rightarrow> IceCheckList \<Rightarrow> IceCheckList" where
  "ice_check_list_set_remote_credentials ufrag pwd cl =
     cl\<lparr>cl_remote_ufrag := Some (take 256 ufrag), cl_remote_pwd := Some (take 256 pwd)\<rparr>"

text \<open>\<open>ice_choose_local_or_remote_default_candidates\<close> (ice.c 1416-1440) for a candidate list.\<close>

definition find_candidate_from_type_and_componentID ::
  "IceCheckList \<Rightarrow> cand_ptr list \<Rightarrow> IceCandidateType \<Rightarrow> 16 word \<Rightarrow> cand_ptr option" where
  "find_candidate_from_type_and_componentID cl lst tp cid =
     ms_list_find_custom lst (\<lambda>c. ctype (cand_mem cl c) = tp \<and> componentID (cand_mem cl c) = cid)"

definition ice_choose_local_or_remote_default_candidates :: "cand_ptr list \<Rightarrow> IceCheckList \<Rightarrow> IceCheckList" where
  "ice_choose_local_or_remote_default_candidates lst cl =
     fold (\<lambda>i c.
             (let cid = of_nat i;
                  l1 = find_candidate_from_type_and_componentID c lst ICT_RelayedCandidate cid;
                  l2 = (if l1 = None
                        then find_candidate_from_type_and_componentID c lst ICT_ServerReflexiveCandidate cid
                        else l1);
                  l3 = (if l2 = None
                        then find_candidate_from_type_and_componentID c lst ICT_HostCandidate cid
                        else l2)
              in case l3 of
                   None \<Rightarrow> c
                 | Some cd \<Rightarrow> cand_update cd (\<lambda>x. x\<lparr>is_default := True\<rparr>) c))
          [1 ..< 257] cl"

definition ice_check_list_choose_default_candidates :: "IceCheckList \<Rightarrow> IceCheckList" where
  "ice_check_list_choose_default_candidates cl =
     (let cl1 = ice_choose_local_or_remote_default_candidates (local_candidates cl) cl
      in ice_choose_local_or_remote_default_candidates (remote_candidates cl1) cl1)"

text \<open>Setting the base of server reflexive candidates (ice.c 1886-1916).\<close>

definition ice_set_base_for_srflx_candidate :: "cand_ptr \<Rightarrow> cand_ptr \<Rightarrow> IceCheckList \<Rightarrow> IceCheckList" where
  "ice_set_base_for_srflx_candidate b c cl =
     (if ctype (cand_mem cl c) = ICT_ServerReflexiveCandidate \<and> base (cand_mem cl c) = None
          \<and> componentID (cand_mem cl c) = componentID (cand_mem cl b)
      then cand_update c (\<lambda>x. x\<lparr>base := Some b\<rparr>) cl
      else cl)"

definition ice_set_base_for_srflx_candidate_with_componentID :: "cand_ptr \<Rightarrow> IceCheckList \<Rightarrow> IceCheckList" where
  "ice_set_base_for_srflx_candidate_with_componentID cidp cl =
     (case find_candidate_from_type_and_componentID cl (local_candidates cl) ICT_HostCandidate
             (componentID (cand_mem cl cidp)) of
        None \<Rightarrow> cl
      | Some b \<Rightarrow> fold (ice_set_base_for_srflx_candidate b) (local_candidates cl) cl)"

definition ice_check_list_set_base_for_srflx_candidates :: "IceCheckList \<Rightarrow> IceCheckList" where
  "ice_check_list_set_base_for_srflx_candidates cl =
     fold ice_set_base_for_srflx_candidate_with_componentID (componentIDs cl) cl"

text \<open>\<open>ice_form_candidate_pairs\<close> (ice.c 1464-1485).\<close>

definition ice_form_candidate_pairs :: "IceSession \<Rightarrow> IceCheckList \<Rightarrow> IceCheckList" where
  "ice_form_candidate_pairs sess cl =
     fold (\<lambda>l c. fold (\<lambda>r c1.
                    if componentID (cand_mem c1 l) = componentID (cand_mem c1 r)
                    then (let (p, c2) = ice_pair_new sess l r c1
                          in c2\<lparr>pairs := ms_list_append (pairs c2) p\<rparr>)
                    else c1)
                  (remote_candidates cl) c)
          (local_candidates cl) cl"

text \<open>\<open>ice_replace_srflx_by_base_in_pair\<close> (ice.c 1487-1493); a server reflexive candidate
  without a base leaves the pair with a NULL local candidate, which the comparisons of the
  pruning loop dereference.\<close>

definition srflx_local_without_base :: "IceCheckList \<Rightarrow> pair_ptr \<Rightarrow> bool" where
  "srflx_local_without_base cl p =
     (ctype (cand_mem cl (local (pair_mem cl p))) = ICT_ServerReflexiveCandidate
      \<and> base (cand_mem cl (local (pair_mem cl p))) = None)"

definition ice_replace_srflx_by_base_in_pair :: "pair_ptr \<Rightarrow> IceCheckList \<Rightarrow> IceCheckList" where
  "ice_replace_srflx_by_base_in_pair p cl =
     (if ctype (cand_mem cl (local (pair_mem cl p))) = ICT_ServerReflexiveCandidate
      then pair_update p (\<lambda>pr. pr\<lparr>local := the (base (cand_mem cl (local pr)))\<rparr>) cl
      else cl)"

text \<open>\<open>ice_compare_candidates\<close> and \<open>ice_compare_pairs\<close> (ice.c 1502-1514) return 0.\<close>

definition ice_compare_candidates_is0 :: "IceCandidate \<Rightarrow> IceCandidate \<Rightarrow> bool" where
  "ice_compare_candidates_is0 c1 c2 =
     (ctype c1 = ctype c2 \<and> ice_compare_transport_addresses_is0 (taddr c1) (taddr c2)
      \<and> componentID c1 = componentID c2 \<and> priority c1 = priority c2)"

definition ice_compare_pairs_is0 :: "IceCheckList \<Rightarrow> pair_ptr \<Rightarrow> pair_ptr \<Rightarrow> bool" where
  "ice_compare_pairs_is0 cl p1 p2 =
     (ice_compare_candidates_is0 (cand_mem cl (local (pair_mem cl p1))) (cand_mem cl (local (pair_mem cl p2)))
      \<and> ice_compare_candidates_is0 (cand_mem cl (remote (pair_mem cl p1))) (cand_mem cl (remote (pair_mem cl p2))))"

text \<open>
  The loop of \<open>ice_prune_candidate_pairs\<close> over \<open>cl->pairs\<close> with \<open>ice_prune_duplicate_pair\<close>
  (ice.c 1516-1529, 1548-1554): \<open>kept\<close> are the elements before the current one \<open>e\<close>, \<open>rest\<close>
  those after it. The pair is removed when the first pair of the whole list that compares
  equal to it has a greater priority. The pointers of the list are distinct, so removing
  \<open>e\<close> leaves \<open>kept @ rest\<close>.
\<close>

fun prune_duplicate_loop :: "IceCheckList \<Rightarrow> pair_ptr list \<Rightarrow> pair_ptr list \<Rightarrow> pair_ptr list" where
  "prune_duplicate_loop cl kept [] = kept"
| "prune_duplicate_loop cl kept (e # rest) =
     (case ms_list_find_custom (kept @ e # rest) (\<lambda>q. ice_compare_pairs_is0 cl q e) of
        None \<Rightarrow> prune_duplicate_loop cl (kept @ [e]) rest
      | Some other \<Rightarrow>
          (if pair_priority (pair_mem cl other) > pair_priority (pair_mem cl e)
           then (if rest \<noteq> [] \<and> kept \<noteq> [] then prune_duplicate_loop cl kept rest else kept @ rest)
           else prune_duplicate_loop cl (kept @ [e]) rest))"

text \<open>\<open>ice_prune_candidate_pairs\<close> (ice.c 1537-1572).\<close>

definition ice_prune_candidate_pairs :: "IceSession \<Rightarrow> IceCheckList \<Rightarrow> fault + IceCheckList" where
  "ice_prune_candidate_pairs sess cl =
     (if list_ex (srflx_local_without_base cl) (pairs cl) then Inl NullDereference
      else
        (let cl1 = fold ice_replace_srflx_by_base_in_pair (pairs cl) cl;
             cl2 = cl1\<lparr>pairs := prune_duplicate_loop cl1 [] (pairs cl1)\<rparr>;
             cl3 = fold (\<lambda>p c. c\<lparr>check_list := ms_list_insert_sorted (check_list c) p
                                                   (ice_compare_pair_priorities c)\<rparr>)
                        (pairs cl2) cl2;
             nb_pairs = ms_list_size (check_list cl3)
         in if int nb_pairs > uint (max_connectivity_checks sess)
            then Inr (cl3\<lparr>check_list := take (unat (max_connectivity_checks sess)) (check_list cl3)\<rparr>)
            else Inr cl3))"

text \<open>\<open>ice_generate_pair_foundations_list\<close> (ice.c 1574-1596).\<close>

definition ice_generate_pair_foundations_list :: "IceExternals \<Rightarrow> pair_ptr \<Rightarrow> IceCheckList \<Rightarrow> IceCheckList" where
  "ice_generate_pair_foundations_list ext p cl =
     (let fnd = \<lparr>pf_local = take (foundation_size ext - 1) (foundation (cand_mem cl (local (pair_mem cl p)))),
                 pf_remote = take (foundation_size ext - 1) (foundation (cand_mem cl (remote (pair_mem cl p))))\<rparr>
      in case ms_list_find_custom (foundations cl)
                (\<lambda>f1. pf_local f1 = pf_local fnd \<and> pf_remote f1 = pf_remote fnd) of
           None \<Rightarrow> cl\<lparr>foundations := ms_list_append (foundations cl) fnd\<rparr>
         | Some _ \<Rightarrow> cl)"

text \<open>
  \<open>ice_find_lowest_componentid_pair_with_specified_foundation\<close> (ice.c 1598-1606) on the
  fields \<open>pair\<close>, \<open>componentID\<close> and \<open>priority\<close> of \<open>fc\<close>, and \<open>ice_compute_pairs_states\<close>
  (ice.c 1609-1621).
\<close>

definition ice_find_lowest_componentid_pair_with_specified_foundation ::
  "IceCheckList \<Rightarrow> pair_ptr \<Rightarrow> pair_ptr option \<times> 16 word \<times> 64 word \<Rightarrow> pair_ptr option \<times> 16 word \<times> 64 word" where
  "ice_find_lowest_componentid_pair_with_specified_foundation cl p fc =
     (case fc of (fc_pair, fc_componentID, fc_priority) \<Rightarrow>
        if fc_componentID = ICE_INVALID_COMPONENTID
           \<or> (componentID (cand_mem cl (local (pair_mem cl p))) < fc_componentID
              \<and> pair_priority (pair_mem cl p) > fc_priority)
        then (Some p, componentID (cand_mem cl (local (pair_mem cl p))), pair_priority (pair_mem cl p))
        else fc)"

definition ice_compute_pairs_states :: "IceCheckList \<Rightarrow> IceCheckList" where
  "ice_compute_pairs_states cl =
     (case fold (ice_find_lowest_componentid_pair_with_specified_foundation cl) (check_list cl)
             (None, ICE_INVALID_COMPONENTID, 0) of
        (None, _, _) \<Rightarrow> cl
      | (Some p, _, _) \<Rightarrow> pair_update p (ice_pair_set_state ICP_Waiting) cl)"

text \<open>\<open>ice_check_list_pair_candidates\<close> (ice.c 1623-1638); \<open>first_media_stream\<close> tells whether
  the check list is the first stream of the session.\<close>

definition ice_check_list_pair_candidates ::
  "IceExternals \<Rightarrow> IceSession \<Rightarrow> bool \<Rightarrow> IceCheckList \<Rightarrow> fault + IceCheckList" where
  "ice_check_list_pair_candidates ext sess first_media_stream cl =
     (case ice_prune_candidate_pairs sess (ice_form_candidate_pairs sess cl) of
        Inl f \<Rightarrow> Inl f
      | Inr cl1 \<Rightarrow>
          (let cl2 = fold (ice_generate_pair_foundations_list ext) (check_list cl1) cl1
           in if first_media_stream then Inr (ice_compute_pairs_states cl2) else Inr cl2))"

text \<open>\<open>ice_session_pair_candidates\<close> (ice.c 1640-1644).\<close>

definition ice_session_pair_candidates :: "IceExternals \<Rightarrow> IceSession \<Rightarrow> fault + IceSession" where
  "ice_session_pair_candidates ext s =
     (case fold (\<lambda>i r. case r of
                          Inl f \<Rightarrow> Inl f
                        | Inr s1 \<Rightarrow>
                           (case ice_check_list_pair_candidates ext s1 (i = 0) (streams s1 ! i) of
                              Inl f \<Rightarrow> Inl f
                            | Inr cl1 \<Rightarrow> Inr (stream_update i (\<lambda>_. cl1) s1)))
             [0 ..< length (streams s)] (Inr s) of
        Inl f \<Rightarrow> Inl f
      | Inr s2 \<Rightarrow> Inr (s2\<lparr>session_state := IS_Running\<rparr>))"

text \<open>The session-wide variants (ice.c 1401-1404, 1448-1451, 1913-1916).\<close>

definition ice_session_compute_candidates_foundations :: "IceExternals \<Rightarrow> IceSession \<Rightarrow> IceSession" where
  "ice_session_compute_candidates_foundations ext s =
     s\<lparr>streams := map (ice_check_list_compute_candidates_foundations ext) (streams s)\<rparr>"

definition ice_session_choose_default_candidates :: "IceSession \<Rightarrow> IceSession" where
  "ice_session_choose_default_candidates s =
     s\<lparr>streams := map ice_check_list_choose_default_candidates (streams s)\<rparr>"

definition ice_session_set_base_for_srflx_candidates :: "IceSession \<Rightarrow> IceSession" where
  "ice_session_set_base_for_srflx_candidates s =
     s\<lparr>streams := map ice_check_list_set_base_for_srflx_candidates (streams s)\<rparr>"

section \<open>Reachable states\<close>

text \<open>
  The states of a session that the functions exported by ice.c can produce: a new session,
  a new check list added to it, the setters and the candidate functions on one of its
  check lists or on the session, pairing, the passing of time on the ticker, a received
  STUN packet and a run of the scheduler for one of its check lists. A call that ends in a
  fault produces no state. The base handed to \<open>ice_add_local_candidate\<close> is NULL or a local
  candidate of the check list.
\<close>

inductive reachable :: "IceExternals \<Rightarrow> IceSession \<Rightarrow> bool" for ext :: IceExternals where
  r_init: "reachable ext (ice_session_init tb ufrag pwd)"
| r_add_check_list:
    "reachable ext s \<Longrightarrow> reachable ext (ice_session_add_check_list (ice_check_list_new cm pm) s)"
| r_register_success_cb:
    "reachable ext s \<Longrightarrow> i < length (streams s) \<Longrightarrow>
     reachable ext (stream_update i ice_check_list_register_success_cb s)"
| r_check_list_remote_credentials:
    "reachable ext s \<Longrightarrow> i < length (streams s) \<Longrightarrow>
     reachable ext (stream_update i (ice_check_list_set_remote_credentials ufrag pwd) s)"
| r_add_local_candidate:
    "reachable ext s \<Longrightarrow> i < length (streams s) \<Longrightarrow>
     bs = None \<or> (\<exists>b \<in> set (local_candidates (streams s ! i)). bs = Some b) \<Longrightarrow>
     reachable ext (stream_update i (\<lambda>cl. snd (ice_add_local_candidate ext tp ipstr prt cid bs cl)) s)"
| r_add_remote_candidate:
    "reachable ext s \<Longrightarrow> i < length (streams s) \<Longrightarrow>
     reachable ext (stream_update i (\<lambda>cl. snd (ice_add_remote_candidate ext tp ipstr prt cid prio fnd cl)) s)"
| r_set_role: "reachable ext s \<Longrightarrow> reachable ext (ice_session_set_role r s)"
| r_set_local_credentials:
    "reachable ext s \<Longrightarrow> reachable ext (ice_session_set_local_credentials ufrag pwd s)"
| r_set_remote_credentials:
    "reachable ext s \<Longrightarrow> reachable ext (ice_session_set_remote_credentials ufrag pwd s)"
| r_set_max_connectivity_checks:
    "reachable ext s \<Longrightarrow> reachable ext (ice_session_set_max_connectivity_checks n s)"
| r_set_keepalive_timeout:
    "reachable ext s \<Longrightarrow> reachable ext (ice_session_set_keepalive_timeout n s)"
| r_compute_candidates_foundations:
    "reachable ext s \<Longrightarrow> reachable ext (ice_session_compute_candidates_foundations ext s)"
| r_choose_default_candidates:
    "reachable ext s \<Longrightarrow> reachable ext (ice_session_choose_default_candidates s)"
| r_set_base_for_srflx_candidates:
    "reachable ext s \<Longrightarrow> reachable ext (ice_session_set_base_for_srflx_candidates s)"
| r_pair_candidates:
    "reachable ext s \<Longrightarrow> ice_session_pair_candidates ext s = Inr s1 \<Longrightarrow> reachable ext s1"
| r_ticker: "reachable ext s \<Longrightarrow> reachable ext (s\<lparr>ticker_time := t\<rparr>)"
| r_stun_packet:
    "reachable ext s \<Longrightarrow> ice_handle_stun_packet ext i rnds evt (s, rtp) = Inr (s1, rtp1) \<Longrightarrow>
     reachable ext s1"
| r_process:
    "reachable ext s \<Longrightarrow> ice_check_list_process_stream ext i nid (s, rtp) = Inr (s1, rtp1) \<Longrightarrow>
     reachable ext s1"

section \<open>A concrete agent\<close>

text \<open>
  Externals, memory contents and an RTP session for running the model on concrete input:
  three hosts \<open>10.0.0.1\<close>, \<open>10.0.0.2\<close> and \<open>10.0.0.3\<close> that resolve to their numeric
  addresses, an encoder that always succeeds, and buffers of 64, 32 and 256 bytes.
\<close>

definition ex_msg_controlling :: "64 word \<Rightarrow> StunMessage" where
  "ex_msg_controlling tb = stun_zero_message\<lparr>hasIceControlling := True, iceControlling := tb\<rparr>"

definition ex_msg_controlled :: "64 word \<Rightarrow> StunMessage" where
  "ex_msg_controlled tb = stun_zero_message\<lparr>hasIceControlled := True, iceControlled := tb\<rparr>"

text \<open>A complete binding request of a controlled peer for the agent whose ufrag is
  \<open>aaaaaaaa\<close>, and a success response that carries the all-zero transaction ID and the
  mapped address \<open>10.0.0.1:5000\<close>.\<close>

definition ex_request :: StunMessage where
  "ex_request =
     stun_zero_message\<lparr>msgType := STUN_REQUEST, tr_id := 77,
        hasMessageIntegrity := True, hasUsername := True, hasFingerprint := True,
        hasPriority := True, hasIceControlled := True, iceControlled := 5,
        username := ''aaaaaaaa:cccccccc'', msg_priority := 1853693951\<rparr>"

definition ex_response :: StunMessage where
  "ex_response =
     stun_zero_message\<lparr>msgType := STUN_SUCCESS_RESP, tr_id := 0,
        hasMessageIntegrity := True, hasUsername := True, hasFingerprint := True,
        hasXorMappedAddress := True, username := ''cccccccc:aaaaaaaa'',
        xorMappedAddress := \<lparr>sa_addr = 0x0A000001, sa_port = 5000\<rparr>\<rparr>"

definition ex_ext :: IceExternals where
  "ex_ext =
     \<lparr>ip_size = 64, foundation_size = 32, stun_string_size = 256,
      stunParseHostName =
        (\<lambda>h p. (if h = ''10.0.0.1'' then 0x0A000001 else if h = ''10.0.0.2'' then 0x0A000002
                 else if h = ''10.0.0.3'' then 0x0A000003 else 0x7F000001, p)),
      inet_ntoa =
        (\<lambda>a. if a = 0x0A000001 then ''10.0.0.1'' else if a = 0x0A000002 then ''10.0.0.2''
              else if a = 0x0A000003 then ''10.0.0.3'' else ''127.0.0.1''),
      stunEncodeMessage = (\<lambda>m pw. 100),
      stunParseMessage =
        (\<lambda>b. if b = [0] then Some ex_request else if b = [1] then Some ex_response else None),
      stunCalculateIntegrity_shortterm = (\<lambda>b k. replicate 20 0)\<rparr>"

definition zero_candidate :: IceCandidate where
  "zero_candidate =
     \<lparr>foundation = [], taddr = \<lparr>ip = [], port = 0\<rparr>, ctype = ICT_HostCandidate,
      priority = 0, componentID = 0, base = None, is_default = False\<rparr>"

definition zero_pair :: IceCandidatePair where
  "zero_pair =
     \<lparr>local = 0, remote = 0, state = ICP_Waiting, pair_priority = 0, transactionID = 0,
      transmission_time = 0, rto = 0, retransmissions = 0, pair_role = IR_Controlling,
      pair_is_default = False, is_nominated = False, wait_transaction_timeout = False\<rparr>"

definition ex_rtp :: RtpSession where
  "ex_rtp = \<lparr>rtp_socket = 3, rtcp_socket = 4, loc_port = 5000, sent = []\<rparr>"

text \<open>Two packets arriving on the RTP socket for \<open>10.0.0.1\<close>: the request, from the unknown
  peer address \<open>10.0.0.3:7000\<close>, and the response, from \<open>10.0.0.2:6000\<close>.\<close>

definition ex_evt_request :: OrtpEventData where
  "ex_evt_request =
     \<lparr>socket_type = OrtpRTPSocket, packet = [0], ipi_addr = 0x0A000001, ep_family = AF_INET,
      ep_addr = 0x0A000003, ep_port = 7000, ep_host = Some ''10.0.0.3''\<rparr>"

definition ex_evt :: OrtpEventData where
  "ex_evt =
     \<lparr>socket_type = OrtpRTPSocket, packet = [1], ipi_addr = 0x0A000001, ep_family = AF_INET,
      ep_addr = 0x0A000002, ep_port = 6000, ep_host = Some ''10.0.0.2''\<rparr>"

text \<open>
  A session limited to one connectivity check, with one check list that has a success
  callback, the local host candidate \<open>10.0.0.1:5000\<close> and the remote host candidate
  \<open>10.0.0.2:6000\<close> of component 1; and the session that pairing makes of it.
\<close>

definition ex_session :: IceSession where
  "ex_session =
     ice_session_compute_candidates_foundations ex_ext
       (stream_update 0 (\<lambda>cl. snd (ice_add_remote_candidate ex_ext ''host'' ''10.0.0.2'' 6000 1 0 ''1'' cl))
         (stream_update 0 (\<lambda>cl. snd (ice_add_local_candidate ex_ext ''host'' ''10.0.0.1'' 5000 1 None cl))
           (stream_update 0 ice_check_list_register_success_cb
             (ice_session_set_max_connectivity_checks 1
               (ice_session_add_check_list (ice_check_list_new (\<lambda>_. zero_candidate) (\<lambda>_. zero_pair))
                 (ice_session_init 20 ''aaaaaaaa'' ''bbbbbbbbbbbbbbbbbbbbbbbb''))))))"

definition ex_paired_cl :: IceCheckList where
  "ex_paired_cl =
     \<lparr>cand_mem =
        (\<lambda>_. zero_candidate)
        (0 := \<lparr>foundation = ''1'', taddr = \<lparr>ip = ''10.0.0.1'', port = 5000\<rparr>,
               ctype = ICT_HostCandidate, priority = 2130706431, componentID = 1,
               base = Some 0, is_default = False\<rparr>,
         1 := \<lparr>foundation = ''1'', taddr = \<lparr>ip = ''10.0.0.2'', port = 6000\<rparr>,
               ctype = ICT_HostCandidate, priority = 2130706431, componentID = 1,
               base = Some 1, is_default = False\<rparr>),
      cand_next = 2,
      pair_mem =
        (\<lambda>_. zero_pair)
        (0 := \<lparr>local = 0, remote = 1, state = ICP_Waiting,
               pair_priority = 9151314442783293438, transactionID = 0,
               transmission_time = 0, rto = 100, retransmissions = 0,
               pair_role = IR_Controlling, pair_is_default = False, is_nominated = False,
               wait_transaction_timeout = False\<rparr>),
      pair_next = 1, cl_remote_ufrag = None, cl_remote_pwd = None,
      local_candidates = [0], remote_candidates = [1], pairs = [0],
      triggered_checks_queue = [], check_list = [0], valid_list = [], componentIDs = [0],
      foundations = [\<lparr>pf_local = ''1'', pf_remote = ''1''\<rparr>],
      cl_state = ICL_Running, ta_time = 0, keepalive_time = 0, foundation_generator = 2,
      success_cb_registered = True, success_cb_calls = 0\<rparr>"

definition ex_paired :: IceSession where
  "ex_paired =
     \<lparr>streams = [ex_paired_cl], session_state = IS_Running, role = IR_Controlling,
      tie_breaker = 20, ta = 20, keepalive_timeout = 15, max_connectivity_checks = 1,
      local_ufrag = ''aaaaaaaa'', local_pwd = ''bbbbbbbbbbbbbbbbbbbbbbbb'',
      remote_ufrag = None, remote_pwd = None, ticker_time = 0\<rparr>"

text \<open>
  A session whose only check list has two local candidates of component 1, a host candidate
  \<open>10.0.0.1:5000\<close> and a relayed candidate \<open>10.0.0.3:5000\<close>, and the remote host candidate
  \<open>10.0.0.2:6000\<close>; the same session with at most one connectivity check; and the view of
  a check list that gives, for each pair of the check list, the foundations of its
  candidates and its state.
\<close>

definition ex_session2 :: IceSession where
  "ex_session2 =
     ice_session_compute_candidates_foundations ex_ext
       (stream_update 0 (\<lambda>cl. snd (ice_add_remote_candidate ex_ext ''host'' ''10.0.0.2'' 6000 1 0 ''1'' cl))
         (stream_update 0 (\<lambda>cl. snd (ice_add_local_candidate ex_ext ''relay'' ''10.0.0.3'' 5000 1 None cl))
           (stream_update 0 (\<lambda>cl. snd (ice_add_local_candidate ex_ext ''host'' ''10.0.0.1'' 5000 1 None cl))
             (ice_session_add_check_list (ice_check_list_new (\<lambda>_. zero_candidate) (\<lambda>_. zero_pair))
               (ice_session_init 20 ''aaaaaaaa'' ''bbbbbbbbbbbbbbbbbbbbbbbb'')))))"

definition ex_session3 :: IceSession where
  "ex_session3 = ice_session_set_max_connectivity_checks 1 ex_session2"

definition pair_foundations_and_states ::
  "IceCheckList \<Rightarrow> (string \<times> string \<times> IceCandidatePairState) list" where
  "pair_foundations_and_states cl =
     map (\<lambda>p. (foundation (cand_mem cl (local (pair_mem cl p))),
               foundation (cand_mem cl (remote (pair_mem cl p))),
               state (pair_mem cl p)))
         (check_list cl)"

text \<open>The paired check list after a peer reflexive candidate \<open>10.0.0.3:7000\<close> was learned.\<close>

definition ex_learned_cl :: IceCheckList where
  "ex_learned_cl =
     snd (ice_add_remote_candidate ex_ext ''prflx'' ''10.0.0.3'' 7000 1 1853693951 ''abc'' ex_paired_cl)"





section \<open>Properties\<close>

subsection \<open>Pair priority\<close>

lemma ucast_32_64_less: "((ucast (a :: 32 word) :: 64 word) > ucast (b :: 32 word)) = (a > b)"
  by (simp add: word_less_nat_alt unsigned_ucast_eq take_bit_nat_eq_self
        order_less_le_trans [OF unsigned_less])

lemma unat_ucast_32_64: "unat (ucast (a :: 32 word) :: 64 word) = unat a"
  by (simp add: unsigned_ucast_eq take_bit_nat_eq_self order_less_le_trans [OF unsigned_less])

lemma unat_32_bound: "unat (a :: 32 word) < 2 ^ 32"
  using unsigned_less [of a, where 'a = nat] by simp

lemma push_bit_32_bound: "push_bit 32 (unat (x :: 32 word)) < (2 :: nat) ^ 64"
proof -
  have "unat x * 2 ^ 32 < (2 ^ 32 :: nat) * 2 ^ 32"
    using unat_32_bound [of x] by (simp only: mult_less_cancel2) simp
  then show ?thesis by (simp add: push_bit_eq_mult)
qed

lemma push_bit_1_bound: "push_bit 1 (unat (x :: 32 word)) < (2 :: nat) ^ 64"
  using unat_32_bound [of x] by (simp add: push_bit_eq_mult)

lemma pair_priority_word_nat:
  fixes g d :: "32 word" and c :: "64 word"
  shows "unat (push_bit 32 (ucast g :: 64 word) OR push_bit 1 (ucast d :: 64 word) OR c) =
     push_bit 32 (unat g) OR push_bit 1 (unat d) OR unat c"
proof -
  have a: "unat (push_bit 32 (ucast g :: 64 word)) = push_bit 32 (unat g)"
  proof -
    have "unat (push_bit 32 (ucast g :: 64 word)) = take_bit 64 (push_bit 32 (unat (ucast g :: 64 word)))"
      by (simp only: unsigned_push_bit_eq) simp
    also have "\<dots> = push_bit 32 (unat g)"
      by (simp only: unat_ucast_32_64 take_bit_nat_eq_self [OF push_bit_32_bound])
    finally show ?thesis .
  qed
  have b: "unat (push_bit 1 (ucast d :: 64 word)) = push_bit 1 (unat d)"
  proof -
    have "unat (push_bit 1 (ucast d :: 64 word)) = take_bit 64 (push_bit 1 (unat (ucast d :: 64 word)))"
      by (simp only: unsigned_push_bit_eq) simp
    also have "\<dots> = push_bit 1 (unat d)"
      by (simp only: unat_ucast_32_64 take_bit_nat_eq_self [OF push_bit_1_bound])
    finally show ?thesis .
  qed
  show ?thesis
    by (simp only: unsigned_or_eq a b)
qed

lemma pair_priority_min_max:
  fixes g d :: "32 word"
  shows "unat (push_bit 32 (if (ucast g :: 64 word) > ucast d then ucast d else ucast g)
             OR push_bit 1 (if (ucast g :: 64 word) > ucast d then ucast g else ucast d)
             OR (if (ucast g :: 64 word) > ucast d then 1 else 0 :: 64 word)) =
     push_bit 32 (min (unat g) (unat d)) OR push_bit 1 (max (unat g) (unat d))
       OR (if unat g > unat d then 1 else 0)"
proof (cases "g > d")
  case True
  then have u: "unat d < unat g" by (simp add: word_less_nat_alt)
  then have m: "min (unat g) (unat d) = unat d" "max (unat g) (unat d) = unat g" by simp_all
  from True have w: "(ucast d :: 64 word) < ucast g" by (simp only: ucast_32_64_less)
  have "unat (push_bit 32 (ucast d :: 64 word) OR push_bit 1 (ucast g :: 64 word) OR 1) =
     push_bit 32 (unat d) OR push_bit 1 (unat g) OR 1"
    by (simp only: pair_priority_word_nat unsigned_1)
  then show ?thesis by (simp only: w u m if_True)
next
  case False
  then have n: "\<not> unat d < unat g" by (simp add: word_less_nat_alt)
  then have m: "min (unat g) (unat d) = unat g" "max (unat g) (unat d) = unat d" by simp_all
  from False have w: "\<not> (ucast d :: 64 word) < ucast g" by (simp add: ucast_32_64_less)
  have "unat (push_bit 32 (ucast g :: 64 word) OR push_bit 1 (ucast d :: 64 word) OR 0) =
     push_bit 32 (unat g) OR push_bit 1 (unat d) OR 0"
    by (simp only: pair_priority_word_nat unsigned_0)
  then show ?thesis by (simp only: w n m if_False)
qed

text \<open>
  Claim C9. After \<open>ice_compute_pair_priority\<close> the pair's 64-bit priority is, as a number,
  \<open>(min(G,D) << 32) | (max(G,D) << 1) | (G > D ? 1 : 0)\<close>, where \<open>G\<close> is the priority of the
  candidate of the controlling side and \<open>D\<close> that of the controlled side under the role
  passed in: the local candidate's for \<open>G\<close> when the agent is controlling, the remote
  candidate's when it is controlled. Nothing is lost in the 64-bit arithmetic, and no other
  field of the pair changes.
\<close>

theorem pair_priority_formula:
  "unat (pair_priority (ice_compute_pair_priority cm r pair)) =
     (let G = unat (priority (cm (case r of IR_Controlling \<Rightarrow> local pair | IR_Controlled \<Rightarrow> remote pair)));
          D = unat (priority (cm (case r of IR_Controlling \<Rightarrow> remote pair | IR_Controlled \<Rightarrow> local pair)))
      in push_bit 32 (min G D) OR push_bit 1 (max G D) OR (if G > D then 1 else 0))
   \<and> (ice_compute_pair_priority cm r pair)\<lparr>pair_priority := pair_priority pair\<rparr> = pair"
proof (cases r)
  case IR_Controlling
  then show ?thesis
    unfolding ice_compute_pair_priority_def Let_def
    by (cases pair) (simp only: IceRole.case IceCandidatePair.select_convs IceCandidatePair.update_convs
          pair_priority_min_max simp_thms)
next
  case IR_Controlled
  then show ?thesis
    unfolding ice_compute_pair_priority_def Let_def
    by (cases pair) (simp only: IceRole.case IceCandidatePair.select_convs IceCandidatePair.update_convs
          pair_priority_min_max simp_thms)
qed

subsection \<open>The user name of a binding request\<close>

lemma strncmp_is0_take: "strncmp_is0 s1 s2 n = (take n s1 = take n s2)"
  by (induction s1 s2 n rule: strncmp_is0.induct) auto

text \<open>The check accepts exactly the user names whose part before the first colon is a
  prefix of the local ufrag.\<close>

lemma username_check_accepts_iff:
  "(fst (ice_check_received_binding_request_username ext sess cl evt m remote_addr rtp) = 0) =
     (\<exists>k. strchr (c_string (username m)) CHR '':'' = Some k \<and>
          take k (c_string (username m)) = take k (local_ufrag sess))"
  by (auto simp: ice_check_received_binding_request_username_def Let_def strncmp_is0_take
        ice_check_list_local_ufrag_def)

text \<open>
  Claim C6. The claim asks that a user name whose part before the first colon differs from
  the local ufrag be answered with the error (4,1). With the local ufrag \<open>abcd1234\<close> and
  the user name \<open>ab:efgh5678\<close> the part before the colon is \<open>ab\<close>; the code compares only
  its two characters (\<open>strncmp\<close> over the length of the left part), returns 0 and sends
  nothing.
\<close>

theorem username_prefix_accepted:
  "ice_check_received_binding_request_username ext (sess\<lparr>local_ufrag := ''abcd1234''\<rparr>) cl evt
      (m\<lparr>username := ''ab:efgh5678''\<rparr>) remote_addr rtp = (0, rtp)"
  by (simp add: ice_check_received_binding_request_username_def c_string_def
        ice_check_list_local_ufrag_def)

subsection \<open>Retransmissions\<close>








lemma send_binding_request_sent:
  "sent (snd (ice_send_binding_request ext sess nid p (cl, rtp))) = sent rtp \<or>
   (\<exists>x. sent (snd (ice_send_binding_request ext sess nid p (cl, rtp))) = sent rtp @ [x])"
  by (simp add: ice_send_binding_request_def Let_def sendMessage_def)


lemma retransmission_not_in_progress:
  "state (pair_mem cl p) \<noteq> ICP_InProgress \<Longrightarrow>
     ice_handle_connectivity_check_retransmission ext sess nid t p (cl, rtp) = (cl, rtp)"
  by (simp add: ice_handle_connectivity_check_retransmission_def)

subsection \<open>Role conflicts\<close>

lemma role_ice_session_set_role: "role (ice_session_set_role r s) = r"
  by (simp add: ice_session_set_role_def ice_session_compute_pair_priorities_def)

lemma ice_send_error_response_sent:
  "0 \<le> ice_get_socket_from_rtp_session rtp evt \<Longrightarrow>
   0 < stunEncodeMessage ext (stun_error_response m c n err) None \<Longrightarrow>
   ice_send_error_response ext evt m c n dest err rtp =
     rtp\<lparr>sent := sent rtp @ [(ice_get_socket_from_rtp_session rtp evt, stun_error_response m c n err,
                               sa_addr dest, sa_port dest)]\<rparr>"
  by (simp add: ice_send_error_response_def Let_def sendMessage_def)

lemma stun_error_response_fields:
  "msgType (stun_error_response m c n err) = STUN_ERR_RESP"
  "hasErrorCode (stun_error_response m c n err)"
  "errorClass (stun_error_response m c n err) = c"
  "errorNumber (stun_error_response m c n err) = n"
  "tr_id (stun_error_response m c n err) = tr_id m"
  by (simp_all add: stun_error_response_def)

lemma role_conflict_cases:
  "ice_check_received_binding_request_role_conflict ext evt m remote_addr (s, rtp) =
     (if role s = IR_Controlling \<and> hasIceControlling m then
        (if tie_breaker s \<ge> iceControlling m then
           (-1, s, ice_send_error_response ext evt m 4 87 remote_addr ''Role Conflict'' rtp)
         else (0, ice_session_set_role IR_Controlled s, rtp))
      else if role s = IR_Controlled \<and> hasIceControlled m then
        (if tie_breaker s \<ge> iceControlled m then
           (0, ice_session_set_role IR_Controlling s, rtp)
         else (-1, s, ice_send_error_response ext evt m 4 87 remote_addr ''Role Conflict'' rtp))
      else (0, s, rtp))"
  by (simp add: ice_check_received_binding_request_role_conflict_def Let_def)

lemma binding_request_dropped_on_conflict:
  assumes "fst (ice_check_received_binding_request_attributes ext evt m remote_addr rtp) = 0"
    "fst (ice_check_received_binding_request_integrity ext s (streams s ! i) evt m remote_addr rtp) = 0"
    "fst (ice_check_received_binding_request_username ext s (streams s ! i) evt m remote_addr rtp) = 0"
    "fst (ice_check_received_binding_request_role_conflict ext evt m remote_addr (s, rtp)) < 0"
  shows "ice_handle_received_binding_request ext i rnds evt m remote_addr src6host (s, rtp) =
           Inr (snd (ice_check_received_binding_request_role_conflict ext evt m remote_addr (s, rtp)))"
proof -
  have a: "ice_check_received_binding_request_attributes ext evt m remote_addr rtp = (0, rtp)"
    using assms(1) by (auto simp: ice_check_received_binding_request_attributes_def split: if_splits)
  have b: "ice_check_received_binding_request_integrity ext s (streams s ! i) evt m remote_addr rtp = (0, rtp)"
    using assms(2) by (auto simp: ice_check_received_binding_request_integrity_def Let_def split: if_splits)
  have c: "ice_check_received_binding_request_username ext s (streams s ! i) evt m remote_addr rtp = (0, rtp)"
    using assms(3) by (auto simp: ice_check_received_binding_request_username_def Let_def split: if_splits)
  obtain rc s4 rtp4 where d: "ice_check_received_binding_request_role_conflict ext evt m remote_addr (s, rtp) = (rc, s4, rtp4)"
    by (cases "ice_check_received_binding_request_role_conflict ext evt m remote_addr (s, rtp)")
  with assms(4) have "rc < 0" by simp
  then show ?thesis
    by (simp add: ice_handle_received_binding_request_def a b c d Let_def)
qed

lemma stream_update_fields [simp]:
  "role (stream_update i f s) = role s"
  "tie_breaker (stream_update i f s) = tie_breaker s"
  "ticker_time (stream_update i f s) = ticker_time s"
  "session_state (stream_update i f s) = session_state s"
  "max_connectivity_checks (stream_update i f s) = max_connectivity_checks s"
  "length (streams (stream_update i f s)) = length (streams s)"
  by (simp_all add: stream_update_def)

lemma pair_role_set_state [simp]: "pair_role (ice_pair_set_state st pr) = pair_role pr"
  by (simp add: ice_pair_set_state_def split: IceCandidatePairState.splits)

lemma pair_role_after_failed:
  "pair_role (pair_mem (streams (stream_update i (pair_update p (ice_pair_set_state ICP_Failed)) s) ! i) p)
     = pair_role (pair_mem (streams s ! i) p)"
  by (cases "i < length (streams s)") (simp_all add: stream_update_def pair_update_def list_update_beyond)

lemma error_487_flips_role:
  assumes "ice_handle_received_error_response i m s = Inr s1"
    and "find_pair_from_transactionID (streams s ! i) (tr_id m) = Some p"
    and "hasErrorCode m" "errorClass m = 4" "errorNumber m = 87"
  shows "role s1 = (case pair_role (pair_mem (streams s ! i) p) of
                     IR_Controlling \<Rightarrow> IR_Controlled | IR_Controlled \<Rightarrow> IR_Controlling)"
  using assms
  by (auto simp: ice_handle_received_error_response_def Let_def role_ice_session_set_role
        pair_role_after_failed split: sum.splits IceRole.splits)

text \<open>
  Claim C2, as amended. On a binding request that causes a role conflict:
  a Controlling agent that receives ICE-CONTROLLING replies with the error (4,87) and
  returns -1 when its tie-breaker is greater than or equal to the remote one, and otherwise
  switches to Controlled; a Controlled agent that receives ICE-CONTROLLED switches to
  Controlling when its tie-breaker is greater than or equal to the remote one, and
  otherwise replies with the error (4,87) and returns -1. The reply, sent when the socket
  is valid and the encoder succeeds, is an error response with class 4 and number 87 and
  the request's transaction ID, sent to the request's source. When the earlier checks of
  the request pass and the conflict check returns -1, the request handler ends there: the
  session is as it was, only the reply has been sent. An agent that receives the error
  (4,87) for one of its pairs takes the role opposite to the one it had when it sent the
  request.
\<close>

theorem role_conflict_resolution:
  "(role s = IR_Controlling \<and> hasIceControlling m \<and> iceControlling m \<le> tie_breaker s \<longrightarrow>
      ice_check_received_binding_request_role_conflict ext evt m remote_addr (s, rtp) =
        (-1, s, ice_send_error_response ext evt m 4 87 remote_addr ''Role Conflict'' rtp))
   \<and> (role s = IR_Controlling \<and> hasIceControlling m \<and> tie_breaker s < iceControlling m \<longrightarrow>
      ice_check_received_binding_request_role_conflict ext evt m remote_addr (s, rtp) =
        (0, ice_session_set_role IR_Controlled s, rtp)
      \<and> role (ice_session_set_role IR_Controlled s) = IR_Controlled)
   \<and> (role s = IR_Controlled \<and> hasIceControlled m \<and> iceControlled m \<le> tie_breaker s \<longrightarrow>
      ice_check_received_binding_request_role_conflict ext evt m remote_addr (s, rtp) =
        (0, ice_session_set_role IR_Controlling s, rtp)
      \<and> role (ice_session_set_role IR_Controlling s) = IR_Controlling)
   \<and> (role s = IR_Controlled \<and> hasIceControlled m \<and> tie_breaker s < iceControlled m \<longrightarrow>
      ice_check_received_binding_request_role_conflict ext evt m remote_addr (s, rtp) =
        (-1, s, ice_send_error_response ext evt m 4 87 remote_addr ''Role Conflict'' rtp))
   \<and> (0 \<le> ice_get_socket_from_rtp_session rtp evt
        \<and> 0 < stunEncodeMessage ext (stun_error_response m 4 87 ''Role Conflict'') None \<longrightarrow>
      sent (ice_send_error_response ext evt m 4 87 remote_addr ''Role Conflict'' rtp) =
        sent rtp @ [(ice_get_socket_from_rtp_session rtp evt, stun_error_response m 4 87 ''Role Conflict'',
                     sa_addr remote_addr, sa_port remote_addr)]
      \<and> msgType (stun_error_response m 4 87 ''Role Conflict'') = STUN_ERR_RESP
      \<and> errorClass (stun_error_response m 4 87 ''Role Conflict'') = 4
      \<and> errorNumber (stun_error_response m 4 87 ''Role Conflict'') = 87
      \<and> tr_id (stun_error_response m 4 87 ''Role Conflict'') = tr_id m)
   \<and> (fst (ice_check_received_binding_request_attributes ext evt m remote_addr rtp) = 0
        \<and> fst (ice_check_received_binding_request_integrity ext s (streams s ! i) evt m remote_addr rtp) = 0
        \<and> fst (ice_check_received_binding_request_username ext s (streams s ! i) evt m remote_addr rtp) = 0
        \<and> fst (ice_check_received_binding_request_role_conflict ext evt m remote_addr (s, rtp)) < 0 \<longrightarrow>
      ice_handle_received_binding_request ext i rnds evt m remote_addr src6host (s, rtp) =
        Inr (snd (ice_check_received_binding_request_role_conflict ext evt m remote_addr (s, rtp))))
   \<and> (\<forall>e s1 p. ice_handle_received_error_response i e s = Inr s1
        \<and> find_pair_from_transactionID (streams s ! i) (tr_id e) = Some p
        \<and> hasErrorCode e \<and> errorClass e = 4 \<and> errorNumber e = 87 \<longrightarrow>
      role s1 = (case pair_role (pair_mem (streams s ! i) p) of
                   IR_Controlling \<Rightarrow> IR_Controlled | IR_Controlled \<Rightarrow> IR_Controlling))"
proof -
  have a: "0 \<le> ice_get_socket_from_rtp_session rtp evt
        \<and> 0 < stunEncodeMessage ext (stun_error_response m 4 87 ''Role Conflict'') None \<longrightarrow>
      sent (ice_send_error_response ext evt m 4 87 remote_addr ''Role Conflict'' rtp) =
        sent rtp @ [(ice_get_socket_from_rtp_session rtp evt, stun_error_response m 4 87 ''Role Conflict'',
                     sa_addr remote_addr, sa_port remote_addr)]"
    by (simp add: ice_send_error_response_sent)
  have b: "fst (ice_check_received_binding_request_attributes ext evt m remote_addr rtp) = 0
        \<and> fst (ice_check_received_binding_request_integrity ext s (streams s ! i) evt m remote_addr rtp) = 0
        \<and> fst (ice_check_received_binding_request_username ext s (streams s ! i) evt m remote_addr rtp) = 0
        \<and> fst (ice_check_received_binding_request_role_conflict ext evt m remote_addr (s, rtp)) < 0 \<longrightarrow>
      ice_handle_received_binding_request ext i rnds evt m remote_addr src6host (s, rtp) =
        Inr (snd (ice_check_received_binding_request_role_conflict ext evt m remote_addr (s, rtp)))"
    using binding_request_dropped_on_conflict by blast
  have c: "\<forall>e s1 p. ice_handle_received_error_response i e s = Inr s1
        \<and> find_pair_from_transactionID (streams s ! i) (tr_id e) = Some p
        \<and> hasErrorCode e \<and> errorClass e = 4 \<and> errorNumber e = 87 \<longrightarrow>
      role s1 = (case pair_role (pair_mem (streams s ! i) p) of
                   IR_Controlling \<Rightarrow> IR_Controlled | IR_Controlled \<Rightarrow> IR_Controlling)"
    using error_487_flips_role by blast
  have d: "tie_breaker s < iceControlling m \<Longrightarrow> \<not> iceControlling m \<le> tie_breaker s"
     "tie_breaker s < iceControlled m \<Longrightarrow> \<not> iceControlled m \<le> tie_breaker s"
    by simp_all
  show ?thesis
    apply (intro conjI)
          apply (simp add: role_conflict_cases)
         apply (simp add: role_conflict_cases role_ice_session_set_role d)
        apply (simp add: role_conflict_cases role_ice_session_set_role)
       apply (simp add: role_conflict_cases d)
      apply (simp add: a stun_error_response_fields)
     apply (rule b)
    apply (rule c)
    done
qed

lemmas ex_defs = ice_session_init_def ex_msg_controlling_def ex_msg_controlled_def stun_zero_message_def
  ex_rtp_def ex_evt_def ex_ext_def

text \<open>
  The claim read for a Controlled agent: the side with the lesser tie-breaker yields and
  switches, the other replies (4,87). A Controlled agent with tie-breaker 20 that receives
  ICE-CONTROLLED with the lesser tie-breaker 10 would then reply (4,87) and return -1; the
  code returns 0, switches the agent to Controlling and sends nothing.
\<close>

theorem role_conflict_controlled_counterexample:
  "role ((ice_session_init 20 ''aaaaaaaa'' ''bbbb'')\<lparr>role := IR_Controlled\<rparr>) = IR_Controlled
   \<and> hasIceControlled (ex_msg_controlled 10)
   \<and> iceControlled (ex_msg_controlled 10) < tie_breaker ((ice_session_init 20 ''aaaaaaaa'' ''bbbb'')\<lparr>role := IR_Controlled\<rparr>)
   \<and> \<not> (fst (ice_check_received_binding_request_role_conflict ex_ext ex_evt (ex_msg_controlled 10)
              \<lparr>sa_addr = 0x0A000002, sa_port = 6000\<rparr>
              ((ice_session_init 20 ''aaaaaaaa'' ''bbbb'')\<lparr>role := IR_Controlled\<rparr>, ex_rtp)) = -1)
   \<and> role (fst (snd (ice_check_received_binding_request_role_conflict ex_ext ex_evt (ex_msg_controlled 10)
              \<lparr>sa_addr = 0x0A000002, sa_port = 6000\<rparr>
              ((ice_session_init 20 ''aaaaaaaa'' ''bbbb'')\<lparr>role := IR_Controlled\<rparr>, ex_rtp)))) = IR_Controlling
   \<and> sent (snd (snd (ice_check_received_binding_request_role_conflict ex_ext ex_evt (ex_msg_controlled 10)
              \<lparr>sa_addr = 0x0A000002, sa_port = 6000\<rparr>
              ((ice_session_init 20 ''aaaaaaaa'' ''bbbb'')\<lparr>role := IR_Controlled\<rparr>, ex_rtp)))) = []"
  by (simp add: role_conflict_cases role_ice_session_set_role ex_defs)

text \<open>The four branches on concrete input: tie-breaker 20 against 10 and 30, in both roles.\<close>

theorem role_conflict_resolution_witness:
  "(ice_check_received_binding_request_role_conflict ex_ext ex_evt (ex_msg_controlling 10)
        \<lparr>sa_addr = 0x0A000002, sa_port = 6000\<rparr> (ice_session_init 20 ''aaaaaaaa'' ''bbbb'', ex_rtp) =
      (-1, ice_session_init 20 ''aaaaaaaa'' ''bbbb'',
       ex_rtp\<lparr>sent := [(3, stun_error_response (ex_msg_controlling 10) 4 87 ''Role Conflict'', 0x0A000002, 6000)]\<rparr>))
   \<and> fst (ice_check_received_binding_request_role_conflict ex_ext ex_evt (ex_msg_controlling 30)
        \<lparr>sa_addr = 0x0A000002, sa_port = 6000\<rparr> (ice_session_init 20 ''aaaaaaaa'' ''bbbb'', ex_rtp)) = 0
   \<and> role (fst (snd (ice_check_received_binding_request_role_conflict ex_ext ex_evt (ex_msg_controlling 30)
        \<lparr>sa_addr = 0x0A000002, sa_port = 6000\<rparr> (ice_session_init 20 ''aaaaaaaa'' ''bbbb'', ex_rtp)))) = IR_Controlled
   \<and> role (fst (snd (ice_check_received_binding_request_role_conflict ex_ext ex_evt (ex_msg_controlled 10)
        \<lparr>sa_addr = 0x0A000002, sa_port = 6000\<rparr>
        ((ice_session_init 20 ''aaaaaaaa'' ''bbbb'')\<lparr>role := IR_Controlled\<rparr>, ex_rtp)))) = IR_Controlling
   \<and> fst (ice_check_received_binding_request_role_conflict ex_ext ex_evt (ex_msg_controlled 30)
        \<lparr>sa_addr = 0x0A000002, sa_port = 6000\<rparr>
        ((ice_session_init 20 ''aaaaaaaa'' ''bbbb'')\<lparr>role := IR_Controlled\<rparr>, ex_rtp)) = -1"
proof -
  let ?s = "ice_session_init 20 ''aaaaaaaa'' ''bbbb''"
  let ?ra = "\<lparr>sa_addr = 0x0A000002, sa_port = 6000\<rparr>"
  have h: "role ?s = IR_Controlling" "tie_breaker ?s = 20" "role (?s\<lparr>role := IR_Controlled\<rparr>) = IR_Controlled"
    "tie_breaker (?s\<lparr>role := IR_Controlled\<rparr>) = 20"
    "hasIceControlling (ex_msg_controlling 10)" "iceControlling (ex_msg_controlling 10) = 10"
    "hasIceControlling (ex_msg_controlling 30)" "iceControlling (ex_msg_controlling 30) = 30"
    "hasIceControlled (ex_msg_controlled 10)" "iceControlled (ex_msg_controlled 10) = 10"
    "hasIceControlled (ex_msg_controlled 30)" "iceControlled (ex_msg_controlled 30) = 30"
    "ice_get_socket_from_rtp_session ex_rtp ex_evt = 3"
    "stunEncodeMessage ex_ext (stun_error_response (ex_msg_controlling 10) 4 87 ''Role Conflict'') None = 100"
    by (simp_all add: ex_defs ice_get_socket_from_rtp_session_def)
  show ?thesis
    using role_conflict_resolution [of ?s "ex_msg_controlling 10" ex_ext ex_evt ?ra ex_rtp 0 "[]" "[]"]
      role_conflict_resolution [of ?s "ex_msg_controlling 30" ex_ext ex_evt ?ra ex_rtp 0 "[]" "[]"]
      role_conflict_resolution [of "?s\<lparr>role := IR_Controlled\<rparr>" "ex_msg_controlled 10" ex_ext ex_evt ?ra ex_rtp 0 "[]" "[]"]
      role_conflict_resolution [of "?s\<lparr>role := IR_Controlled\<rparr>" "ex_msg_controlled 30" ex_ext ex_evt ?ra ex_rtp 0 "[]" "[]"]
    by (simp add: h ice_send_error_response_sent) (simp add: ex_rtp_def)
qed

subsection \<open>The concrete agent\<close>

lemmas setup_defs = ice_add_local_candidate_def ice_add_remote_candidate_def ice_add_candidate_def
  ice_check_list_new_def ice_check_list_register_success_cb_def ms_list_size_def ms_list_append_def
  ICE_MAX_NB_CANDIDATES_def ice_compute_candidate_priority_def ice_add_componentID_def ms_list_find_custom_def
  Let_def ex_ext_def zero_candidate_def zero_pair_def ice_check_list_compute_candidates_foundations_def
  ice_compute_candidate_foundation_def ice_find_candidate_with_same_foundation_is0_def cand_update_def
  printf_u.simps hex_digit_def ice_session_set_max_connectivity_checks_def ice_session_add_check_list_def
  ice_session_init_def ICE_DEFAULT_TA_DURATION_def ICE_DEFAULT_KEEPALIVE_TIMEOUT_def ICE_MAX_NB_CANDIDATE_PAIRS_def
  ice_session_compute_candidates_foundations_def stream_update_def

lemmas pairing_defs = ice_session_pair_candidates_def ice_check_list_pair_candidates_def
  ice_prune_candidate_pairs_def ice_form_candidate_pairs_def ice_pair_new_def ice_pair_set_state_def
  ice_compute_pair_priority_def srflx_local_without_base_def ice_replace_srflx_by_base_in_pair_def
  ice_compare_pairs_is0_def ice_compare_candidates_is0_def ice_compare_transport_addresses_is0_def
  ice_compare_pair_priorities_def ice_generate_pair_foundations_list_def
  ice_find_lowest_componentid_pair_with_specified_foundation_def ice_compute_pairs_states_def
  stream_update_def pair_update_def ICE_INVALID_COMPONENTID_def ICE_DEFAULT_RTO_DURATION_def

lemma ex_session_paired: "ice_session_pair_candidates ex_ext ex_session = Inr ex_paired"
  by (simp add: ex_session_def ex_paired_def ex_paired_cl_def setup_defs pairing_defs fun_upd_twist)

lemma reachable_ex_paired: "reachable ex_ext ex_paired"
proof -
  have "reachable ex_ext ex_session"
    unfolding ex_session_def
    by (intro reachable.intros) (simp_all add: stream_update_def ice_session_set_max_connectivity_checks_def ice_session_add_check_list_def ms_list_append_def)
  then show ?thesis using ex_session_paired by (rule r_pair_candidates)
qed

subsection \<open>Responses from the wrong address\<close>

lemma response_addresses_mismatch:
  assumes "0 \<le> ice_get_recv_port_from_rtp_session rtp evt"
    and "(sa_addr remote_addr, sa_port remote_addr) \<noteq>
           stunParseHostName ext (ip (taddr (cand_mem cl (remote (pair_mem cl p)))))
             (word_of_int (port (taddr (cand_mem cl (remote (pair_mem cl p))))))
         \<or> ipi_addr evt \<noteq>
             fst (stunParseHostName ext (ip (taddr (cand_mem cl (local (pair_mem cl p)))))
                    (word_of_int (ice_get_recv_port_from_rtp_session rtp evt)))
         \<or> uint (snd (stunParseHostName ext (ip (taddr (cand_mem cl (local (pair_mem cl p)))))
                          (word_of_int (ice_get_recv_port_from_rtp_session rtp evt))))
             \<noteq> port (taddr (cand_mem cl (local (pair_mem cl p))))"
  shows "ice_check_received_binding_response_addresses ext rtp evt p remote_addr cl =
           (-1, pair_update p (ice_pair_set_state ICP_Failed) cl)"
  using assms
  by (auto simp: ice_check_received_binding_response_addresses_def Let_def prod_eq_iff)

lemma state_set_state [simp]: "state (ice_pair_set_state st pr) = st"
  by (simp add: ice_pair_set_state_def split: IceCandidatePairState.splits)

lemma pair_update_frame: "(pair_update p f cl)\<lparr>pair_mem := pair_mem cl\<rparr> = cl"
  by (simp add: pair_update_def)

text \<open>
  Claim C5. A binding success response is matched to the pair \<open>p\<close> of the check list by its
  transaction ID, and the packet came in on a socket with a non-negative local port. If
  the source address and port of the response are not those the resolver gives for the
  pair's remote transport address, or the packet's destination address is not the one the
  resolver gives for the pair's local address, or the receive port is not the pair's local
  port, then the handler returns with the pair set to Failed and nothing else changed: every
  other pair, the valid list, the check list, the state of the check list and the count of
  success callbacks are as before.
\<close>

theorem nonsymmetric_response_fails_pair:
  assumes "find_pair_from_transactionID cl (tr_id m) = Some p"
    and "0 \<le> ice_get_recv_port_from_rtp_session rtp evt"
    and "(sa_addr remote_addr, sa_port remote_addr) \<noteq>
           stunParseHostName ext (ip (taddr (cand_mem cl (remote (pair_mem cl p)))))
             (word_of_int (port (taddr (cand_mem cl (remote (pair_mem cl p))))))
         \<or> ipi_addr evt \<noteq>
             fst (stunParseHostName ext (ip (taddr (cand_mem cl (local (pair_mem cl p)))))
                    (word_of_int (ice_get_recv_port_from_rtp_session rtp evt)))
         \<or> uint (snd (stunParseHostName ext (ip (taddr (cand_mem cl (local (pair_mem cl p)))))
                          (word_of_int (ice_get_recv_port_from_rtp_session rtp evt))))
             \<noteq> port (taddr (cand_mem cl (local (pair_mem cl p))))"
  shows "\<exists>cl1. ice_handle_received_binding_response ext sess rtp evt m remote_addr cl = Inr cl1
           \<and> state (pair_mem cl1 p) = ICP_Failed
           \<and> (\<forall>q. q \<noteq> p \<longrightarrow> pair_mem cl1 q = pair_mem cl q)
           \<and> cl1\<lparr>pair_mem := pair_mem cl\<rparr> = cl
           \<and> valid_list cl1 = valid_list cl \<and> check_list cl1 = check_list cl
           \<and> cl_state cl1 = cl_state cl \<and> success_cb_calls cl1 = success_cb_calls cl"
proof -
  have "ice_handle_received_binding_response ext sess rtp evt m remote_addr cl =
          Inr (pair_update p (ice_pair_set_state ICP_Failed) cl)"
    by (simp add: ice_handle_received_binding_response_def assms(1)
          response_addresses_mismatch [OF assms(2) assms(3)])
  then show ?thesis
    by (simp add: pair_update_frame) (simp add: pair_update_def)
qed

lemmas ex_defs2 = ex_paired_cl_def ex_response_def stun_zero_message_def ex_rtp_def ex_evt_def ex_ext_def
  zero_pair_def zero_candidate_def

text \<open>A witness: the paired check list of the concrete agent receives the response for its
  pair 0 from \<open>10.0.0.3:7000\<close> instead of the pair's remote \<open>10.0.0.2:6000\<close>.\<close>

theorem nonsymmetric_response_fails_pair_witness:
  "find_pair_from_transactionID ex_paired_cl (tr_id ex_response) = Some 0
   \<and> 0 \<le> ice_get_recv_port_from_rtp_session ex_rtp ex_evt
   \<and> (sa_addr \<lparr>sa_addr = 0x0A000003, sa_port = 7000\<rparr>, sa_port \<lparr>sa_addr = 0x0A000003, sa_port = 7000\<rparr>) \<noteq>
        stunParseHostName ex_ext (ip (taddr (cand_mem ex_paired_cl (remote (pair_mem ex_paired_cl 0)))))
          (word_of_int (port (taddr (cand_mem ex_paired_cl (remote (pair_mem ex_paired_cl 0))))))
   \<and> (\<exists>cl1. ice_handle_received_binding_response ex_ext ex_paired ex_rtp ex_evt ex_response
                \<lparr>sa_addr = 0x0A000003, sa_port = 7000\<rparr> ex_paired_cl = Inr cl1
           \<and> state (pair_mem cl1 0) = ICP_Failed \<and> valid_list cl1 = [])"
proof -
  have h1: "find_pair_from_transactionID ex_paired_cl (tr_id ex_response) = Some 0"
    by (simp add: find_pair_from_transactionID_def ms_list_find_custom_def ex_defs2)
  have h2: "0 \<le> ice_get_recv_port_from_rtp_session ex_rtp ex_evt"
    by (simp add: ice_get_recv_port_from_rtp_session_def ex_defs2)
  have h3: "(sa_addr \<lparr>sa_addr = 0x0A000003, sa_port = 7000\<rparr>, sa_port \<lparr>sa_addr = 0x0A000003, sa_port = 7000\<rparr>) \<noteq>
        stunParseHostName ex_ext (ip (taddr (cand_mem ex_paired_cl (remote (pair_mem ex_paired_cl 0)))))
          (word_of_int (port (taddr (cand_mem ex_paired_cl (remote (pair_mem ex_paired_cl 0))))))"
    by (simp add: ex_defs2)
  have v: "valid_list ex_paired_cl = []" by (simp add: ex_paired_cl_def)
  from nonsymmetric_response_fails_pair [OF h1 h2 disjI1 [OF h3], of ex_paired] v
  have "\<exists>cl1. ice_handle_received_binding_response ex_ext ex_paired ex_rtp ex_evt ex_response
                \<lparr>sa_addr = 0x0A000003, sa_port = 7000\<rparr> ex_paired_cl = Inr cl1
           \<and> state (pair_mem cl1 0) = ICP_Failed \<and> valid_list cl1 = []"
    by auto
  with h1 h2 h3 show ?thesis by blast
qed

subsection \<open>The initial states of the pairs\<close>

lemma compute_pairs_states_one_pair:
  "\<exists>p. \<forall>q. q \<noteq> p \<longrightarrow> pair_mem (ice_compute_pairs_states cl) q = pair_mem cl q"
proof -
  obtain x a b where f: "fold (ice_find_lowest_componentid_pair_with_specified_foundation cl) (check_list cl)
                           (None, ICE_INVALID_COMPONENTID, 0) = (x, a, b)"
    by (cases "fold (ice_find_lowest_componentid_pair_with_specified_foundation cl) (check_list cl)
                 (None, ICE_INVALID_COMPONENTID, 0)") auto
  show ?thesis
  proof (cases x)
    case None
    with f have "ice_compute_pairs_states cl = cl"
      by (simp add: ice_compute_pairs_states_def)
    then show ?thesis by simp
  next
    case (Some p)
    with f have "ice_compute_pairs_states cl = pair_update p (ice_pair_set_state ICP_Waiting) cl"
      by (simp add: ice_compute_pairs_states_def)
    then have "\<forall>q. q \<noteq> p \<longrightarrow> pair_mem (ice_compute_pairs_states cl) q = pair_mem cl q"
      by (simp add: pair_update_def)
    then show ?thesis ..
  qed
qed

text \<open>
  Claim C1. Pairing the session \<open>ex_session2\<close> gives its first check list two pairs with the
  two distinct pair foundations \<open>(1, 1)\<close> and \<open>(2, 1)\<close>, each the only pair, hence the
  representative, of its foundation. Only the pair of foundation \<open>(1, 1)\<close> is set to
  Waiting; the representative of foundation \<open>(2, 1)\<close> stays Frozen.
  \<open>ice_compute_pairs_states\<close> walks the check list once, without looking at the foundations,
  and sets the state of one pair at most.
\<close>

theorem pairing_sets_one_pair_waiting:
  "map_sum id (\<lambda>s. map (\<lambda>cl. (pair_foundations_and_states cl, foundations cl)) (streams s))
     (ice_session_pair_candidates ex_ext ex_session2)
   = Inr [([(''1'', ''1'', ICP_Waiting), (''2'', ''1'', ICP_Frozen)],
           [\<lparr>pf_local = ''1'', pf_remote = ''1''\<rparr>, \<lparr>pf_local = ''2'', pf_remote = ''1''\<rparr>])]"
  by (simp add: ex_session2_def setup_defs pairing_defs pair_foundations_and_states_def)

subsection \<open>The size of the check list\<close>

lemma set_ms_list_insert_sorted [simp]: "set (ms_list_insert_sorted l d cmp) = insert d (set l)"
  by (induction l) auto

lemma length_ms_list_insert_sorted [simp]: "length (ms_list_insert_sorted l d cmp) = Suc (length l)"
  by (induction l) auto

lemma sorted_ms_list_insert_sorted:
  fixes prio :: "'a \<Rightarrow> 64 word"
  assumes "\<And>a b. (cmp a b \<le> 0) = (prio b \<le> prio a)"
    and "sorted_wrt (\<lambda>a b. prio b \<le> prio a) l"
  shows "sorted_wrt (\<lambda>a b. prio b \<le> prio a) (ms_list_insert_sorted l d cmp)"
  using assms(2)
proof (induction l)
  case Nil
  then show ?case by simp
next
  case (Cons x xs)
  show ?case
  proof (cases "cmp d x \<le> 0")
    case True
    then have "prio x \<le> prio d" by (simp add: assms(1))
    with Cons.prems True show ?thesis by auto
  next
    case False
    then have "prio d \<le> prio x" using assms(1) [of d x] by simp
    with Cons False show ?thesis by auto
  qed
qed

lemma ice_compare_pair_priorities_le0:
  "(ice_compare_pair_priorities cl a b \<le> 0) = (pair_priority (pair_mem cl b) \<le> pair_priority (pair_mem cl a))"
  by (auto simp: ice_compare_pair_priorities_def)

lemma ice_compare_pair_priorities_check_list [simp]:
  "ice_compare_pair_priorities (c\<lparr>check_list := l\<rparr>) = ice_compare_pair_priorities c"
  by (intro ext) (simp add: ice_compare_pair_priorities_def)

lemma fold_create_check_list:
  "fold (\<lambda>p c. c\<lparr>check_list := ms_list_insert_sorted (check_list c) p (ice_compare_pair_priorities c)\<rparr>) xs c
     = c\<lparr>check_list := fold (\<lambda>p l. ms_list_insert_sorted l p (ice_compare_pair_priorities c)) xs (check_list c)\<rparr>"
proof (induction xs arbitrary: c)
  case Nil
  then show ?case by simp
next
  case (Cons x xs)
  show ?case by (simp add: Cons)
qed

lemma fold_insert_sorted_props:
  fixes prio :: "'a \<Rightarrow> 64 word"
  assumes "\<And>a b. (cmp a b \<le> 0) = (prio b \<le> prio a)"
    and "sorted_wrt (\<lambda>a b. prio b \<le> prio a) l"
  shows "sorted_wrt (\<lambda>a b. prio b \<le> prio a) (fold (\<lambda>p l. ms_list_insert_sorted l p cmp) xs l)
     \<and> set (fold (\<lambda>p l. ms_list_insert_sorted l p cmp) xs l) = set xs \<union> set l
     \<and> length (fold (\<lambda>p l. ms_list_insert_sorted l p cmp) xs l) = length xs + length l"
  using assms(2)
proof (induction xs arbitrary: l)
  case Nil
  then show ?case by simp
next
  case (Cons x xs)
  have "sorted_wrt (\<lambda>a b. prio b \<le> prio a) (ms_list_insert_sorted l x cmp)"
    using assms(1) Cons.prems by (rule sorted_ms_list_insert_sorted)
  from Cons.IH [OF this] show ?case by auto
qed

lemma prune_check_list:
  assumes "ice_prune_candidate_pairs sess cl = Inr cl1"
  shows "length (check_list cl1) \<le> unat (max_connectivity_checks sess)"
    and "check_list cl = [] \<Longrightarrow>
          \<exists>full. check_list cl1 = take (unat (max_connectivity_checks sess)) full
            \<and> set full = set (pairs cl1) \<and> length full = length (pairs cl1)
            \<and> sorted_wrt (\<lambda>a b. pair_priority (pair_mem cl1 b) \<le> pair_priority (pair_mem cl1 a)) full"
proof -
  define cla where "cla = fold ice_replace_srflx_by_base_in_pair (pairs cl) cl"
  define clb where "clb = cla\<lparr>pairs := prune_duplicate_loop cla [] (pairs cla)\<rparr>"
  define full where "full = fold (\<lambda>p l. ms_list_insert_sorted l p (ice_compare_pair_priorities clb)) (pairs clb) (check_list clb)"
  define clc where "clc = clb\<lparr>check_list := full\<rparr>"
  have r: "cl1 = (if int (length full) > uint (max_connectivity_checks sess)
                  then clc\<lparr>check_list := take (unat (max_connectivity_checks sess)) full\<rparr> else clc)"
    using assms
    by (simp add: ice_prune_candidate_pairs_def Let_def ms_list_size_def fold_create_check_list
          clc_def full_def clb_def cla_def split: if_splits)
  have u: "uint (max_connectivity_checks sess) = int (unat (max_connectivity_checks sess))" by simp
  show "length (check_list cl1) \<le> unat (max_connectivity_checks sess)"
    unfolding r by (simp add: clc_def u del: of_nat_unat)
  assume e: "check_list cl = []"
  have cle: "check_list clb = []"
  proof -
    have "\<And>c. check_list (fold ice_replace_srflx_by_base_in_pair xs c) = check_list c" for xs
      by (induction xs) (simp_all add: ice_replace_srflx_by_base_in_pair_def pair_update_def)
    then show ?thesis by (simp add: clb_def cla_def e)
  qed
  have p: "sorted_wrt (\<lambda>a b. pair_priority (pair_mem clb b) \<le> pair_priority (pair_mem clb a)) full
     \<and> set full = set (pairs clb) \<union> set (check_list clb)
     \<and> length full = length (pairs clb) + length (check_list clb)"
    unfolding full_def
    by (rule fold_insert_sorted_props) (simp_all add: ice_compare_pair_priorities_le0 cle)
  have t: "take (unat (max_connectivity_checks sess)) full = full" if "\<not> int (length full) > uint (max_connectivity_checks sess)"
    using that by (simp add: u del: of_nat_unat)
  have "check_list cl1 = take (unat (max_connectivity_checks sess)) full"
    unfolding r using t by (simp add: clc_def)
  moreover have "pairs cl1 = pairs clb" "pair_mem cl1 = pair_mem clb"
    unfolding r by (simp_all add: clc_def)
  ultimately show "\<exists>full. check_list cl1 = take (unat (max_connectivity_checks sess)) full
            \<and> set full = set (pairs cl1) \<and> length full = length (pairs cl1)
            \<and> sorted_wrt (\<lambda>a b. pair_priority (pair_mem cl1 b) \<le> pair_priority (pair_mem cl1 a)) full"
    using p cle by auto
qed

lemma check_list_generate_foundations [simp]:
  "check_list (fold (ice_generate_pair_foundations_list ext) xs c) = check_list c"
  by (induction xs arbitrary: c) (simp_all add: ice_generate_pair_foundations_list_def Let_def split: option.splits)

lemma check_list_compute_pairs_states [simp]:
  "check_list (ice_compute_pairs_states c) = check_list c"
  by (simp add: ice_compute_pairs_states_def pair_update_def split: prod.splits option.splits)

lemma pair_candidates_check_list:
  assumes "ice_check_list_pair_candidates ext sess first cl = Inr cl1"
  shows "length (check_list cl1) \<le> unat (max_connectivity_checks sess)"
proof -
  from assms obtain c where p: "ice_prune_candidate_pairs sess (ice_form_candidate_pairs sess cl) = Inr c"
    and c: "check_list cl1 = check_list c"
    by (auto simp: ice_check_list_pair_candidates_def Let_def split: sum.splits if_splits)
  from prune_check_list(1) [OF p] c show ?thesis by simp
qed

lemma trigger_check_list:
  assumes "ice_trigger_connectivity_check_on_binding_request ext sess rtp evt prflx tad cl = (res, cl1)"
  shows "(pair_next cl1 = pair_next cl \<and> check_list cl1 = check_list cl)
       \<or> (pair_next cl1 = Suc (pair_next cl) \<and> res = Some (pair_next cl)
          \<and> length (check_list cl1) = Suc (length (check_list cl))
          \<and> set (check_list cl1) = insert (pair_next cl) (set (check_list cl)))"
  using assms
  by (auto simp: ice_trigger_connectivity_check_on_binding_request_def Let_def ice_pair_new_def
        ice_check_list_queue_triggered_check_def pair_update_def
        split: if_splits option.splits prod.splits IceCandidatePairState.splits)

lemmas request_defs = ice_handle_stun_packet_def ice_handle_received_binding_request_def
  ice_check_received_binding_request_attributes_def ice_check_received_binding_request_integrity_def
  ice_check_received_binding_request_username_def ice_check_received_binding_request_role_conflict_def
  ice_check_list_local_ufrag_def ice_check_list_local_pwd_def c_string_def
  ice_fill_transport_address_def ice_learn_peer_reflexive_candidate_def
  find_candidate_from_transport_address_def ice_compare_transport_addresses_is0_def
  ice_add_remote_candidate_def ice_add_candidate_def ice_compute_candidate_priority_def
  ice_trigger_connectivity_check_on_binding_request_def ice_get_recv_port_from_rtp_session_def
  ice_get_socket_from_rtp_session_def find_pair_from_candidates_def ice_pair_new_def
  ice_compute_pair_priority_def ice_compare_pair_priorities_def ice_pair_set_state_def
  ice_check_list_queue_triggered_check_def ice_update_nominated_flag_on_binding_request_def
  ice_send_binding_response_def sendMessage_def stun_magic_cookie_def
  ice_conclude_processing_def ice_perform_regular_nomination_def
  ice_conclude_waiting_frozen_and_inprogress_pairs_def all_componentIDs_have_nominated_valid_pair_def
  find_nominated_valid_pair_from_componentID_def all_pairs_in_failed_or_succeeded_state_def
  ice_find_not_failed_or_succeeded_pair_def
  ms_list_find_custom_def ms_list_find_def ms_list_append_def ms_list_size_def
  stream_update_def pair_update_def Let_def
  ICE_MAX_NB_CANDIDATES_def ICE_DEFAULT_RTO_DURATION_def
  printf_llx.simps hex_digit_def

lemmas ex_all_defs = ex_paired_def ex_paired_cl_def ex_request_def ex_response_def stun_zero_message_def
  ex_rtp_def ex_evt_def ex_evt_request_def ex_ext_def zero_pair_def zero_candidate_def

lemma ex_session3_pruned:
  "\<exists>c. ice_prune_candidate_pairs ex_session3 (ice_form_candidate_pairs ex_session3 (streams ex_session3 ! 0)) = Inr c
      \<and> check_list c = [0] \<and> pairs c = [0, 1]
      \<and> check_list (ice_form_candidate_pairs ex_session3 (streams ex_session3 ! 0)) = []
      \<and> pair_priority (pair_mem c 1) < pair_priority (pair_mem c 0)"
  by (simp add: ex_session3_def ex_session2_def setup_defs pairing_defs)

lemma ex_session3_paired:
  "\<exists>c. ice_check_list_pair_candidates ex_ext ex_session3 True (streams ex_session3 ! 0) = Inr c"
  by (simp add: ex_session3_def ex_session2_def setup_defs pairing_defs)

lemma ex_learned_trigger:
  "\<exists>c. ice_trigger_connectivity_check_on_binding_request ex_ext ex_paired ex_rtp ex_evt_request
          (Some 2) \<lparr>ip = ''10.0.0.3'', port = 7000\<rparr> ex_learned_cl = (Some 1, c)
       \<and> pair_next c = 2 \<and> pair_next ex_learned_cl = 1 \<and> check_list ex_learned_cl = [0]"
  by (simp add: ex_learned_cl_def request_defs ex_all_defs)

lemma ex_request_grows_check_list:
  "case ice_handle_stun_packet ex_ext 0 [0xABC] ex_evt_request (ex_paired, ex_rtp) of
     Inl f \<Rightarrow> False
   | Inr (s, r) \<Rightarrow> map check_list (streams s) = [[0, 1]] \<and> max_connectivity_checks s = 1"
  by (simp add: request_defs ex_all_defs)

text \<open>
  Claim C3, as the code has it. Pruning (\<open>ice_prune_candidate_pairs\<close>) leaves at most
  \<open>max_connectivity_checks\<close> pairs in the check list; started from an empty check list it
  keeps the first \<open>max_connectivity_checks\<close> pairs of the list of all pairs sorted by
  decreasing priority, so the pairs it drops are of the lowest priority; the bound holds when
  \<open>ice_check_list_pair_candidates\<close> returns. A triggered check on a binding request either
  leaves the check list as it is or creates a pair and inserts it into the check list,
  which then has one pair more: \<open>max_connectivity_checks\<close> is not looked at.
\<close>

theorem check_list_limit_after_pruning:
  "(\<forall>cl1. ice_prune_candidate_pairs sess cl = Inr cl1 \<longrightarrow>
       length (check_list cl1) \<le> unat (max_connectivity_checks sess)
       \<and> (check_list cl = [] \<longrightarrow>
            (\<exists>full. check_list cl1 = take (unat (max_connectivity_checks sess)) full
               \<and> set full = set (pairs cl1) \<and> length full = length (pairs cl1)
               \<and> sorted_wrt (\<lambda>a b. pair_priority (pair_mem cl1 b) \<le> pair_priority (pair_mem cl1 a)) full)))
   \<and> (\<forall>cl1. ice_check_list_pair_candidates ext sess first cl0 = Inr cl1 \<longrightarrow>
         length (check_list cl1) \<le> unat (max_connectivity_checks sess))
   \<and> (\<forall>res cl1. ice_trigger_connectivity_check_on_binding_request ext sess rtp evt prflx tad cl2 = (res, cl1) \<longrightarrow>
         (pair_next cl1 = pair_next cl2 \<and> check_list cl1 = check_list cl2)
         \<or> (pair_next cl1 = Suc (pair_next cl2) \<and> res = Some (pair_next cl2)
            \<and> length (check_list cl1) = Suc (length (check_list cl2))
            \<and> set (check_list cl1) = insert (pair_next cl2) (set (check_list cl2))))"
  using prune_check_list [of sess cl] pair_candidates_check_list [of ext sess first cl0]
    trigger_check_list [of ext sess rtp evt prflx tad cl2]
  by blast

theorem check_list_limit_after_pruning_witness:
  "(\<exists>c. ice_prune_candidate_pairs ex_session3 (ice_form_candidate_pairs ex_session3 (streams ex_session3 ! 0)) = Inr c
       \<and> check_list (ice_form_candidate_pairs ex_session3 (streams ex_session3 ! 0)) = []
       \<and> length (pairs c) = 2 \<and> length (check_list c) \<le> unat (max_connectivity_checks ex_session3)
       \<and> (\<exists>full. check_list c = take (unat (max_connectivity_checks ex_session3)) full
               \<and> set full = set (pairs c) \<and> length full = length (pairs c)
               \<and> sorted_wrt (\<lambda>a b. pair_priority (pair_mem c b) \<le> pair_priority (pair_mem c a)) full))
   \<and> (\<exists>c. ice_check_list_pair_candidates ex_ext ex_session3 True (streams ex_session3 ! 0) = Inr c
         \<and> length (check_list c) \<le> unat (max_connectivity_checks ex_session3))
   \<and> (\<exists>c. ice_trigger_connectivity_check_on_binding_request ex_ext ex_paired ex_rtp ex_evt_request
              (Some 2) \<lparr>ip = ''10.0.0.3'', port = 7000\<rparr> ex_learned_cl = (Some 1, c)
         \<and> length (check_list c) = 2 \<and> unat (max_connectivity_checks ex_paired) = 1)"
proof -
  note t = check_list_limit_after_pruning [of ex_session3
      "ice_form_candidate_pairs ex_session3 (streams ex_session3 ! 0)" ex_ext True "streams ex_session3 ! 0"]
  note u = check_list_limit_after_pruning [of ex_paired _ ex_ext _ _ ex_rtp ex_evt_request "Some 2"
      "\<lparr>ip = ''10.0.0.3'', port = 7000\<rparr>" ex_learned_cl]
  from ex_session3_pruned obtain c where
    c: "ice_prune_candidate_pairs ex_session3 (ice_form_candidate_pairs ex_session3 (streams ex_session3 ! 0)) = Inr c"
      "check_list (ice_form_candidate_pairs ex_session3 (streams ex_session3 ! 0)) = []" "pairs c = [0, 1]"
    by blast
  from ex_session3_paired obtain d where
    d: "ice_check_list_pair_candidates ex_ext ex_session3 True (streams ex_session3 ! 0) = Inr d"
    by blast
  from ex_learned_trigger obtain e where
    e: "ice_trigger_connectivity_check_on_binding_request ex_ext ex_paired ex_rtp ex_evt_request
          (Some 2) \<lparr>ip = ''10.0.0.3'', port = 7000\<rparr> ex_learned_cl = (Some 1, e)"
    and e2: "pair_next e = 2" "pair_next ex_learned_cl = 1" "check_list ex_learned_cl = [0]"
    by blast
  have m: "unat (max_connectivity_checks ex_paired) = 1" by (simp add: ex_paired_def)
  from t c(1,2) have p1: "length (check_list c) \<le> unat (max_connectivity_checks ex_session3)
       \<and> (\<exists>full. check_list c = take (unat (max_connectivity_checks ex_session3)) full
               \<and> set full = set (pairs c) \<and> length full = length (pairs c)
               \<and> sorted_wrt (\<lambda>a b. pair_priority (pair_mem c b) \<le> pair_priority (pair_mem c a)) full)"
    by blast
  from t d have p2: "length (check_list d) \<le> unat (max_connectivity_checks ex_session3)" by blast
  from u e have "(pair_next e = pair_next ex_learned_cl \<and> check_list e = check_list ex_learned_cl)
         \<or> (pair_next e = Suc (pair_next ex_learned_cl) \<and> Some 1 = Some (pair_next ex_learned_cl)
            \<and> length (check_list e) = Suc (length (check_list ex_learned_cl))
            \<and> set (check_list e) = insert (pair_next ex_learned_cl) (set (check_list ex_learned_cl)))"
    by blast
  with e2 have p3: "length (check_list e) = 2" by simp
  have l: "length (pairs c) = 2" by (simp add: c(3))
  have q1: "\<exists>c. ice_prune_candidate_pairs ex_session3 (ice_form_candidate_pairs ex_session3 (streams ex_session3 ! 0)) = Inr c
       \<and> check_list (ice_form_candidate_pairs ex_session3 (streams ex_session3 ! 0)) = []
       \<and> length (pairs c) = 2 \<and> length (check_list c) \<le> unat (max_connectivity_checks ex_session3)
       \<and> (\<exists>full. check_list c = take (unat (max_connectivity_checks ex_session3)) full
               \<and> set full = set (pairs c) \<and> length full = length (pairs c)
               \<and> sorted_wrt (\<lambda>a b. pair_priority (pair_mem c b) \<le> pair_priority (pair_mem c a)) full)"
    using c(1) c(2) l p1 by blast
  have q2: "\<exists>c. ice_check_list_pair_candidates ex_ext ex_session3 True (streams ex_session3 ! 0) = Inr c
         \<and> length (check_list c) \<le> unat (max_connectivity_checks ex_session3)"
    using d p2 by blast
  have q3: "\<exists>c. ice_trigger_connectivity_check_on_binding_request ex_ext ex_paired ex_rtp ex_evt_request
              (Some 2) \<lparr>ip = ''10.0.0.3'', port = 7000\<rparr> ex_learned_cl = (Some 1, c)
         \<and> length (check_list c) = 2 \<and> unat (max_connectivity_checks ex_paired) = 1"
    using e p3 m by blast
  from q1 q2 q3 show ?thesis by (intro conjI)
qed

text \<open>
  The check list of \<open>ex_paired\<close> holds one pair and \<open>max_connectivity_checks\<close> is 1. A binding
  request from the unknown address \<open>10.0.0.3:7000\<close> makes \<open>ice_handle_stun_packet\<close> learn a
  peer reflexive candidate and create a pair for the triggered check: the check list of the
  state reached holds two pairs.
\<close>

theorem check_list_limit_counterexample:
  "\<not> (\<forall>s. reachable ex_ext s \<longrightarrow>
         (\<forall>cl \<in> set (streams s). length (check_list cl) \<le> unat (max_connectivity_checks s)))"
proof -
  from ex_request_grows_check_list obtain s r where
    h: "ice_handle_stun_packet ex_ext 0 [0xABC] ex_evt_request (ex_paired, ex_rtp) = Inr (s, r)"
    and c: "map check_list (streams s) = [[0, 1]]" and m: "max_connectivity_checks s = 1"
    by (auto split: sum.splits)
  from reachable_ex_paired h have "reachable ex_ext s" by (rule r_stun_packet)
  moreover from c obtain cl where "cl \<in> set (streams s)" "check_list cl = [0, 1]"
    by (cases "streams s") auto
  ultimately show ?thesis using m by (auto intro!: exI [of _ s] bexI [of _ cl])
qed

subsection \<open>Retransmissions under the scheduler\<close>




lemma queue_triggered_check_frame [simp]:
  "pair_mem (ice_check_list_queue_triggered_check p cl) = pair_mem cl"
  "cand_mem (ice_check_list_queue_triggered_check p cl) = cand_mem cl"
  by (simp_all add: ice_check_list_queue_triggered_check_def split: option.splits)







lemma word8_of_nat_succ: "(of_nat n :: 8 word) + 1 = of_nat (Suc n)"
  by simp






lemma fold_frame: "(\<And>x s. g (f x s) = g s) \<Longrightarrow> g (fold f xs s) = g s"
  by (induction xs arbitrary: s) simp_all


lemma state_regular_nomination [simp]:
  "state (pair_mem (ice_perform_regular_nomination vp cl) q) = state (pair_mem cl q)"
  by (simp add: ice_perform_regular_nomination_def pair_update_def)

lemma state_stop_retransmission [simp]:
  "state (pair_mem (ice_stop_retransmission_for_in_progress_pair cid p cl) q) = state (pair_mem cl q)"
  by (simp add: ice_stop_retransmission_for_in_progress_pair_def pair_update_def)

lemma state_conclude_pairs [simp]:
  "state (pair_mem (ice_conclude_waiting_frozen_and_inprogress_pairs vp cl) q) = state (pair_mem cl q)"
  by (simp add: ice_conclude_waiting_frozen_and_inprogress_pairs_def Let_def
        fold_frame [where g = "\<lambda>c. state (pair_mem c q)"])










































end
